theory Spec2Isabelle
  imports Main "HOL-Library.AList"
begin

section \<open>Python values and containers used by pycommand\<close>

text \<open>
  Flag values are \<^verbatim>\<open>None\<close> (the unset sentinel), \<^verbatim>\<open>True\<close> or the string that the
  tokenizer handed over. \<^verbatim>\<open>False\<close> is a value of the language too, so it is part of
  the type: that the parser never stores it is a property, not a typing accident.
\<close>

datatype pyval = PyNone | PyBool bool | PyStr string

text \<open>
  One entry of \<^verbatim>\<open>optionList\<close> is \<^verbatim>\<open>(flag, (short, argument, description))\<close>.
  \<^verbatim>\<open>val[0]\<close> is a string (empty: no short option); \<^verbatim>\<open>val[1]\<close> is \<^verbatim>\<open>False\<close>
  (here \<open>None\<close>) or a string describing the argument; \<^verbatim>\<open>val[2]\<close> is the description.
\<close>

type_synonym optval = "string \<times> string option \<times> string"

type_synonym option_table = "(string \<times> optval) list"

text \<open>Truth value of \<^verbatim>\<open>val[1]\<close>: \<^verbatim>\<open>False\<close> and the empty string are both false.\<close>

fun truthy :: "string option \<Rightarrow> bool" where
  "truthy None = False"
| "truthy (Some s) = (s \<noteq> [])"

text \<open>\<^verbatim>\<open>len(val[1])\<close> and the text of \<^verbatim>\<open>val[1]\<close>, read only where \<^verbatim>\<open>val[1]\<close> is true.\<close>

fun argument :: "string option \<Rightarrow> string" where
  "argument None = []"
| "argument (Some s) = s"

text \<open>
  \<^verbatim>\<open>OrderedDict(pairs)\<close>: pairs are inserted from left to right; a key that is already
  there keeps its position and takes the new value.
\<close>

definition OrderedDict :: "('k \<times> 'v) list \<Rightarrow> ('k \<times> 'v) list" where
  "OrderedDict pairs = fold (\<lambda>(k, v) d. AList.update k v d) pairs []"

text \<open>
  \<^verbatim>\<open>'{options:{padding}}'.format(options=s, padding=n)\<close> for a string \<open>s\<close> and a width
  \<open>n > 0\<close>: the text, filled with spaces on the right up to \<open>n\<close> characters, never cut.
  (Width \<open>0\<close> would be read as a fill flag; \<open>CommandBase_init\<close> never formats with it,
  see \<open>padding_loop_ge\<close> below.)
\<close>

definition format_width :: "string \<Rightarrow> nat \<Rightarrow> string" where
  "format_width s n = s @ replicate (n - length s) (CHR '' '')"

section \<open>The constructor of CommandBase\<close>

subsection \<open>Padding of the option column (lines 122 to 128)\<close>

fun padding_loop :: "option_table \<Rightarrow> nat \<Rightarrow> nat" where
  "padding_loop [] padding = padding"
| "padding_loop ((flag, val) # items) padding =
     (let optlen = length flag + 2;
          optlen = optlen + (if fst val \<noteq> [] then 4 else 0);
          optlen = optlen + (if fst val \<noteq> [] \<and> truthy (fst (snd val))
                             then length (argument (fst (snd val))) + 1 else 0);
          optlen = optlen + (if truthy (fst (snd val))
                             then length (argument (fst (snd val))) + 1 else 0)
      in padding_loop items (if optlen > padding then optlen else padding))"

subsection \<open>Usage lines and the specs for the tokenizer (lines 130 to 156)\<close>

text \<open>
  The loop fills the local variables \<^verbatim>\<open>longopts\<close>, \<^verbatim>\<open>shortopts\<close>, \<^verbatim>\<open>opthelp\<close> and the
  dictionary \<^verbatim>\<open>self.flags\<close>; they are the state of the recursion. \<^verbatim>\<open>flagstring_short\<close>
  is assigned in every iteration that reads it, so it is local to one iteration here.
\<close>

definition flagstring_long :: "string \<Rightarrow> optval \<Rightarrow> string" where
  "flagstring_long flag val =
     (if truthy (fst (snd val)) then flag @ ''='' @ argument (fst (snd val)) else flag)"

definition flagstring_short :: "optval \<Rightarrow> string" where
  "flagstring_short val =
     (if truthy (fst (snd val)) then fst val @ '' '' @ argument (fst (snd val)) else fst val)"

definition optline :: "string \<Rightarrow> optval \<Rightarrow> string" where
  "optline flag val =
     (if fst val \<noteq> []
      then ''-'' @ flagstring_short val @ '', --'' @ flagstring_long flag val
      else ''--'' @ flagstring_long flag val)"

fun usage_loop ::
  "nat \<Rightarrow> option_table \<Rightarrow> string list \<times> string \<times> string \<times> (string \<rightharpoonup> pyval)
     \<Rightarrow> string list \<times> string \<times> string \<times> (string \<rightharpoonup> pyval)" where
  "usage_loop padding [] state = state"
| "usage_loop padding ((flag, val) # items) (longopts, shortopts, opthelp, flags) =
     (let spec = (if truthy (fst (snd val)) then flag @ ''='' else flag);
          longopts = longopts @ [spec];
          flags = flags(flag \<mapsto> PyNone);
          shortopts = (if fst val \<noteq> []
                       then shortopts @ (if truthy (fst (snd val)) then fst val @ '':'' else fst val)
                       else shortopts);
          opthelp = opthelp @ format_width (optline flag val) padding
                      @ ''  '' @ snd (snd val) @ [CHR 0x0A]
      in usage_loop padding items (longopts, shortopts, opthelp, flags))"

subsection \<open>The tokenizer\<close>

text \<open>
  The constructor calls \<^verbatim>\<open>getopt.getopt(argv, shortopts, longopts)\<close>, which raises
  \<^verbatim>\<open>GetoptError(msg, opt)\<close> or returns the pair of the recognised options and the
  remaining arguments. The constructor is modelled for any tokenizer of that type.
\<close>

datatype GetoptError = GetoptError (msg: string) (err_opt: string)

type_synonym opts = "(string \<times> string) list"

type_synonym tokenizer =
  "string list \<Rightarrow> string \<Rightarrow> string list \<Rightarrow> GetoptError + (opts \<times> string list)"

text \<open>
  Modelled from the spec: the tokenizer itself is the standard library's
  \<^verbatim>\<open>getopt.getopt\<close>, which the repository imports and does not contain. Section 6 of
  the specification gives its contract: it splits the argument vector into
  \<open>(option, value)\<close> pairs and the remaining positional arguments, takes \<^verbatim>\<open>--\<close> as the
  end of the options, and fails on an unknown option and on a missing value. The
  definitions below follow the library's algorithm (options first, no permutation, unique
  prefixes of long options accepted), which meets that contract.
\<close>

fun short_has_arg :: "char \<Rightarrow> string \<Rightarrow> GetoptError + bool" where
  "short_has_arg opt [] =
     Inl (GetoptError (''option -'' @ [opt] @ '' not recognized'') [opt])"
| "short_has_arg opt (c # shortopts) =
     (if opt = c \<and> c \<noteq> CHR '':'' then Inr (take 1 shortopts = '':'')
      else short_has_arg opt shortopts)"

fun do_shorts :: "opts \<Rightarrow> string \<Rightarrow> string \<Rightarrow> string list \<Rightarrow> GetoptError + (opts \<times> string list)" where
  "do_shorts opts [] shortopts args = Inr (opts, args)"
| "do_shorts opts (opt # optstring) shortopts args =
     (case short_has_arg opt shortopts of
        Inl e \<Rightarrow> Inl e
      | Inr True \<Rightarrow>
          (if optstring = []
           then (case args of
                   [] \<Rightarrow> Inl (GetoptError (''option -'' @ [opt] @ '' requires argument'') [opt])
                 | a # args' \<Rightarrow> Inr (opts @ [(''-'' @ [opt], a)], args'))
           else Inr (opts @ [(''-'' @ [opt], optstring)], args))
      | Inr False \<Rightarrow> do_shorts (opts @ [(''-'' @ [opt], [])]) optstring shortopts args)"

definition long_has_args :: "string \<Rightarrow> string list \<Rightarrow> GetoptError + (bool \<times> string)" where
  "long_has_args opt longopts =
     (let possibilities = filter (\<lambda>l. take (length opt) l = opt) longopts
      in if possibilities = []
         then Inl (GetoptError (''option --'' @ opt @ '' not recognized'') opt)
         else if opt \<in> set possibilities then Inr (False, opt)
         else if opt @ ''='' \<in> set possibilities then Inr (True, opt)
         else if length possibilities > 1
         then Inl (GetoptError (''option --'' @ opt @ '' not a unique prefix'') opt)
         else (let unique_match = hd possibilities;
                   has_arg = (unique_match \<noteq> [] \<and> last unique_match = CHR ''='')
               in Inr (has_arg, if has_arg then butlast unique_match else unique_match)))"

definition do_longs :: "opts \<Rightarrow> string \<Rightarrow> string list \<Rightarrow> string list \<Rightarrow> GetoptError + (opts \<times> string list)" where
  "do_longs opts opt longopts args =
     (let (opt, optarg) =
            (if CHR ''='' \<in> set opt
             then (takeWhile (\<lambda>c. c \<noteq> CHR ''='') opt,
                   Some (drop 1 (dropWhile (\<lambda>c. c \<noteq> CHR ''='') opt)))
             else (opt, None))
      in case long_has_args opt longopts of
           Inl e \<Rightarrow> Inl e
         | Inr (has_arg, opt) \<Rightarrow>
             (if has_arg
              then (case optarg of
                      None \<Rightarrow>
                        (case args of
                           [] \<Rightarrow> Inl (GetoptError (''option --'' @ opt @ '' requires argument'') opt)
                         | a # args' \<Rightarrow> Inr (opts @ [(''--'' @ opt, a)], args'))
                    | Some a \<Rightarrow> Inr (opts @ [(''--'' @ opt, a)], args))
              else (case optarg of
                      Some a \<Rightarrow>
                        Inl (GetoptError (''option --'' @ opt @ '' must not have an argument'') opt)
                    | None \<Rightarrow> Inr (opts @ [(''--'' @ opt, [])], args))))"

lemma do_shorts_length:
  "do_shorts opts optstring shortopts args = Inr (opts', args') \<Longrightarrow> length args' \<le> length args"
  by (induction optstring arbitrary: opts)
     (auto split: sum.splits bool.splits if_splits list.splits)

lemma do_longs_length:
  "do_longs opts opt longopts args = Inr (opts', args') \<Longrightarrow> length args' \<le> length args"
  by (auto simp: do_longs_def Let_def split: sum.splits if_splits option.splits list.splits prod.splits)

function getopt_loop :: "opts \<Rightarrow> string list \<Rightarrow> string \<Rightarrow> string list \<Rightarrow> GetoptError + (opts \<times> string list)" where
  "getopt_loop opts [] shortopts longopts = Inr (opts, [])"
| "getopt_loop opts (a # args) shortopts longopts =
     (if take 1 a = ''-'' \<and> a \<noteq> ''-''
      then if a = ''--'' then Inr (opts, args)
           else if take 2 a = ''--''
           then (case do_longs opts (drop 2 a) longopts args of
                   Inl e \<Rightarrow> Inl e
                 | Inr (opts', args') \<Rightarrow> getopt_loop opts' args' shortopts longopts)
           else (case do_shorts opts (drop 1 a) shortopts args of
                   Inl e \<Rightarrow> Inl e
                 | Inr (opts', args') \<Rightarrow> getopt_loop opts' args' shortopts longopts)
      else Inr (opts, a # args))"
  by pat_completeness auto
termination
proof (relation "measure (\<lambda>(opts, args, shortopts, longopts). length args)")
  show "wf (measure (\<lambda>(opts, args, shortopts, longopts). length args))"
    by simp
next
  fix opts :: opts and a :: string and args longopts :: "string list" and shortopts :: string
    and x2 :: "opts \<times> string list" and x y
  assume "do_longs opts (drop 2 a) longopts args = Inr x2" "(x, y) = x2"
  then have "length y \<le> length args"
    using do_longs_length by metis
  then show "((x, y, shortopts, longopts), opts, a # args, shortopts, longopts)
      \<in> measure (\<lambda>(opts, args, shortopts, longopts). length args)"
    by simp
next
  fix opts :: opts and a :: string and args longopts :: "string list" and shortopts :: string
    and x2 :: "opts \<times> string list" and x y
  assume "do_shorts opts (drop 1 a) shortopts args = Inr x2" "(x, y) = x2"
  then have "length y \<le> length args"
    using do_shorts_length by metis
  then show "((x, y, shortopts, longopts), opts, a # args, shortopts, longopts)
      \<in> measure (\<lambda>(opts, args, shortopts, longopts). length args)"
    by simp
qed

definition getopt :: tokenizer where
  "getopt args shortopts longopts = getopt_loop [] args shortopts longopts"

subsection \<open>Setting the flags from the recognised options (lines 173 to 189)\<close>

text \<open>
  \<^verbatim>\<open>CommandExit\<close> is the exception of the module, \<^verbatim>\<open>OptionError\<close> its subclass of
  \<^verbatim>\<open>AttributeError\<close>; \<^verbatim>\<open>IndexError\<close> is what \<^verbatim>\<open>opt[0][1]\<close> raises on a string
  shorter than two characters.
\<close>

datatype exception =
  IndexError | CommandExit int | OptionError string | AttributeError string

definition char_at :: "string \<Rightarrow> nat \<Rightarrow> exception + char" where
  "char_at s i = (if i < length s then Inr (s ! i) else Inl IndexError)"

text \<open>The inner loop: one recognised option \<open>opt\<close> against every entry of the table.\<close>

fun match_option ::
  "option_table \<Rightarrow> string \<times> string \<Rightarrow> (string \<rightharpoonup> pyval) \<Rightarrow> exception + (string \<rightharpoonup> pyval)" where
  "match_option [] opt flags = Inr flags"
| "match_option ((flag, val) # items) opt flags =
     (case char_at (fst opt) 1 of
        Inl e \<Rightarrow> Inl e
      | Inr c \<Rightarrow>
          (if c \<noteq> CHR ''-''
           then (if [c] = fst val
                 then (if truthy (fst (snd val))
                       then match_option items opt (flags(flag \<mapsto> PyStr (snd opt)))
                       else match_option items opt (flags(flag \<mapsto> PyBool True)))
                 else match_option items opt flags)
           else (if drop 2 (fst opt) = flag
                 then (if truthy (fst (snd val))
                       then match_option items opt (flags(flag \<mapsto> PyStr (snd opt)))
                       else match_option items opt (flags(flag \<mapsto> PyBool True)))
                 else match_option items opt flags)))"

text \<open>The outer loop over the recognised options.\<close>

fun match_options ::
  "option_table \<Rightarrow> opts \<Rightarrow> (string \<rightharpoonup> pyval) \<Rightarrow> exception + (string \<rightharpoonup> pyval)" where
  "match_options items [] flags = Inr flags"
| "match_options items (opt # opts) flags =
     (case match_option items opt flags of
        Inl e \<Rightarrow> Inl e
      | Inr flags' \<Rightarrow> match_options items opts flags')"

subsection \<open>Command classes and command objects\<close>

text \<open>
  \<^verbatim>\<open>self.flags\<close> is a plain \<^verbatim>\<open>dict\<close> until the last line of the constructor turns it
  into a \<^verbatim>\<open>dictobject\<close>.
\<close>

datatype flagmap =
  dict (entries: "string \<rightharpoonup> pyval") | dictobject (entries: "string \<rightharpoonup> pyval")

text \<open>
  A command class gives the class attributes; \<open>'r\<close> is what the callables registered in
  \<^verbatim>\<open>commands\<close> return. A command object has these and the instance variables of the
  constructor.
\<close>

record 'r command_class =
  usagestr :: string
  description :: string
  optionList :: option_table
  usageTextExtra :: string
  commands :: "string \<rightharpoonup> (string list \<Rightarrow> 'r)"

record 'r command = "'r command_class" +
  error :: "GetoptError option"
  flags :: flagmap
  args :: "string list"
  parentFlags :: "string \<rightharpoonup> pyval"
  usage :: string

definition CommandBase_init ::
  "tokenizer \<Rightarrow> 'r command_class \<Rightarrow> string list \<Rightarrow> exception + 'r command" where
  "CommandBase_init tok cls argv =
     (let items = OrderedDict (optionList cls);
          padding = padding_loop items 0;
          (longopts, shortopts, opthelp, fl) = usage_loop padding items ([], [], [], Map.empty);
          u = usagestr cls;
          u = (if description cls \<noteq> [] then u @ [CHR 0x0A, CHR 0x0A] @ description cls else u);
          u = (if items \<noteq> [] then u @ [CHR 0x0A, CHR 0x0A] @ ''Options:'' @ [CHR 0x0A] @ opthelp
               else u);
          u = (if usageTextExtra cls \<noteq> [] then u @ [CHR 0x0A] @ usageTextExtra cls else u);
          self = \<lparr>usagestr = usagestr cls, description = description cls, optionList = items,
                  usageTextExtra = usageTextExtra cls, commands = commands cls,
                  error = None, flags = dict fl, args = [], parentFlags = Map.empty, usage = u\<rparr>
      in case tok argv shortopts longopts of
           Inl err \<Rightarrow> Inr (self\<lparr>error := Some err\<rparr>)
         | Inr (opts, rest) \<Rightarrow>
             (case match_options items opts fl of
                Inl e \<Rightarrow> Inl e
              | Inr fl' \<Rightarrow> Inr (self\<lparr>args := rest, flags := dictobject fl'\<rparr>)))"

definition registerParentFlag :: "'r command \<Rightarrow> string \<Rightarrow> pyval \<Rightarrow> 'r command" where
  "registerParentFlag self optionName v = self\<lparr>parentFlags := (parentFlags self)(optionName \<mapsto> v)\<rparr>"

section \<open>Dispatch: run and run_and_exit\<close>

text \<open>\<^verbatim>\<open>print(s)\<close> writes the text and a newline; the output is returned with the result.\<close>

definition print :: "string \<Rightarrow> string" where
  "print s = s @ [CHR 0x0A]"

definition run :: "'r command \<Rightarrow> string \<times> (exception + 'r)" where
  "run self =
     (if args self = [] then (print (usage self), Inl (CommandExit 2))
      else if hd (args self) \<in> dom (commands self)
      then ([], Inr ((the (commands self (hd (args self)))) (drop 1 (args self))))
      else (print (''error: command '' @ hd (args self) @ '' does not exist''),
            Inl (CommandExit 1)))"

text \<open>
  \<^verbatim>\<open>sys.exit(x)\<close> raises \<^verbatim>\<open>SystemExit(x)\<close>. The process ends with status 0 for
  \<^verbatim>\<open>None\<close>, and with status 1 for an object that is not an integer and for an exception
  that nothing caught. An integer \<open>n\<close> is converted to a C \<^verbatim>\<open>long\<close> of 64 bits, of which
  the system keeps the low eight bits: the status is \<open>n mod 256\<close>, which is \<open>n\<close> itself
  only from 0 to 255 (256 gives 0, -1 gives 255). An integer outside the range of
  \<^verbatim>\<open>long\<close> is converted to -1, status 255.
\<close>

datatype 'a pyobject = ObjNone | ObjInt int | Obj 'a

datatype 'a process_exit = SystemExit "'a pyobject" | Uncaught exception

fun exit_status :: "'a process_exit \<Rightarrow> int" where
  "exit_status (SystemExit ObjNone) = 0"
| "exit_status (SystemExit (ObjInt n)) =
     (if - (2 ^ 63) \<le> n \<and> n < 2 ^ 63 then n mod 256 else 255)"
| "exit_status (SystemExit (Obj x)) = 1"
| "exit_status (Uncaught e) = 1"

text \<open>
  \<^verbatim>\<open>run_and_exit(command_class)\<close>: the class gives the attributes of \<open>cls\<close> and the
  method \<^verbatim>\<open>run\<close>, which a subclass may override, so it is the parameter \<open>run_method\<close>;
  \<open>sys_argv\<close> is \<^verbatim>\<open>sys.argv\<close>.
\<close>

definition run_and_exit ::
  "tokenizer \<Rightarrow> ('r command \<Rightarrow> string \<times> (exception + 'a pyobject)) \<Rightarrow> 'r command_class
     \<Rightarrow> string list \<Rightarrow> string \<times> 'a process_exit" where
  "run_and_exit tok run_method command_class sys_argv =
     (case CommandBase_init tok command_class (drop 1 sys_argv) of
        Inl e \<Rightarrow> ([], Uncaught e)
      | Inr cmd \<Rightarrow>
          (case error cmd of
             Some err \<Rightarrow> (print (''error: '' @ msg err), SystemExit (ObjInt 1))
           | None \<Rightarrow>
               (case run_method cmd of
                  (out, Inl e) \<Rightarrow> (out, Uncaught e)
                | (out, Inr v) \<Rightarrow> (out, SystemExit v))))"

section \<open>Attribute access on the flag map\<close>

text \<open>The method \<^verbatim>\<open>dictobject.__getattr__\<close>.\<close>

definition dictobject_getattr :: "(string \<rightharpoonup> pyval) \<Rightarrow> string \<Rightarrow> exception + pyval" where
  "dictobject_getattr self name =
     (if name \<in> dom self then Inr (the (self name))
      else Inl (OptionError (''Option '' @ [CHR 0x27] @ name @ [CHR 0x27] @ '' is not defined'')))"

text \<open>
  The expression \<^verbatim>\<open>flags.name\<close>. Python looks the name up on the object and its classes
  first and calls \<^verbatim>\<open>__getattr__\<close> only when that finds nothing. \<^verbatim>\<open>dictobject\<close> is a
  subclass of \<^verbatim>\<open>dict\<close>, so every attribute of \<^verbatim>\<open>dict\<close> is found by the first step:
  \<open>inherited\<close> says which names these are. A plain \<^verbatim>\<open>dict\<close> has no \<^verbatim>\<open>__getattr__\<close>.
\<close>

datatype attribute = Stored pyval | Inherited string

definition getattr :: "(string \<Rightarrow> bool) \<Rightarrow> flagmap \<Rightarrow> string \<Rightarrow> exception + attribute" where
  "getattr inherited fm name =
     (if inherited name then Inr (Inherited name)
      else (case fm of
              dictobject d \<Rightarrow>
                (case dictobject_getattr d name of Inl e \<Rightarrow> Inl e | Inr v \<Rightarrow> Inr (Stored v))
            | dict d \<Rightarrow>
                Inl (AttributeError ([CHR 0x27] @ ''dict'' @ [CHR 0x27] @ '' object has no attribute ''
                                       @ [CHR 0x27] @ name @ [CHR 0x27]))))"

text \<open>
  The public methods that every \<^verbatim>\<open>dict\<close> has, in Python 2.7 and in Python 3 (the
  versions the package declares). They are some of the names a \<^verbatim>\<open>dictobject\<close> inherits,
  not all of them: the attributes with two underscores on each side, such as
  \<^verbatim>\<open>__len__\<close> and \<^verbatim>\<open>__class__\<close>, are inherited too, and which ones exist depends on
  the version of Python. So \<open>getattr\<close> takes the inherited names as a parameter, and
  \<open>is_dict_method\<close> is used only at the names it lists.
\<close>

definition dict_methods :: "string list" where
  "dict_methods = [''clear'', ''copy'', ''fromkeys'', ''get'', ''items'', ''keys'', ''pop'',
     ''popitem'', ''setdefault'', ''update'', ''values'']"

definition is_dict_method :: "string \<Rightarrow> bool" where
  "is_dict_method name = (name \<in> set dict_methods)"

section \<open>Derived descriptions used in the statements\<close>

text \<open>
  The width that the specification gives for one option: the long flag and its two
  dashes, four more characters when there is a short letter, the argument text and one
  separator when there are both a short letter and an argument, and the same again
  whenever there is an argument.
\<close>

definition spec_width :: "string \<times> optval \<Rightarrow> nat" where
  "spec_width item =
     (case item of (flag, short, arg, desc) \<Rightarrow>
        length flag + 2
        + (if short \<noteq> [] then 4 else 0)
        + (if short \<noteq> [] \<and> truthy arg then length (argument arg) + 1 else 0)
        + (if truthy arg then length (argument arg) + 1 else 0))"

text \<open>
  What the loop over the table leaves in \<^verbatim>\<open>longopts\<close>, \<^verbatim>\<open>shortopts\<close>, \<^verbatim>\<open>opthelp\<close>
  and \<^verbatim>\<open>self.flags\<close>, and the usage text built from them (lemmas \<open>usage_loop_init\<close>
  and \<open>CommandBase_init_eq\<close> below).
\<close>

definition longopts_of :: "option_table \<Rightarrow> string list" where
  "longopts_of items = map (\<lambda>(flag, val). if truthy (fst (snd val)) then flag @ ''='' else flag) items"

definition shortopts_of :: "option_table \<Rightarrow> string" where
  "shortopts_of items =
     concat (map (\<lambda>(flag, val). if fst val \<noteq> []
                                  then (if truthy (fst (snd val)) then fst val @ '':'' else fst val)
                                  else []) items)"

definition opthelp_of :: "nat \<Rightarrow> option_table \<Rightarrow> string" where
  "opthelp_of padding items =
     concat (map (\<lambda>(flag, val). format_width (optline flag val) padding
                                   @ ''  '' @ snd (snd val) @ [CHR 0x0A]) items)"

definition unset_flags :: "option_table \<Rightarrow> (string \<rightharpoonup> pyval)" where
  "unset_flags items = (\<lambda>name. if name \<in> fst ` set items then Some PyNone else None)"

definition usage_text :: "'r command_class \<Rightarrow> option_table \<Rightarrow> string" where
  "usage_text cls items =
     usagestr cls
     @ (if description cls \<noteq> [] then [CHR 0x0A, CHR 0x0A] @ description cls else [])
     @ (if items \<noteq> []
        then [CHR 0x0A, CHR 0x0A] @ ''Options:'' @ [CHR 0x0A] @ opthelp_of (padding_loop items 0) items
        else [])
     @ (if usageTextExtra cls \<noteq> [] then [CHR 0x0A] @ usageTextExtra cls else [])"

text \<open>
  The test of the inner loop for one recognised option and one table entry, and the value
  it stores. \<open>appears\<close> says that an option is among the recognised ones, in its long or
  in its short spelling. \<open>wf_token\<close> is the shape of the option names the tokenizer
  returns: a dash and one character, or two dashes and a name.
\<close>

definition hits :: "string \<times> string \<Rightarrow> string \<Rightarrow> optval \<Rightarrow> bool" where
  "hits opt flag val =
     (if fst opt ! 1 \<noteq> CHR ''-'' then [fst opt ! 1] = fst val else drop 2 (fst opt) = flag)"

definition flag_value :: "optval \<Rightarrow> string \<times> string \<Rightarrow> pyval" where
  "flag_value val opt = (if truthy (fst (snd val)) then PyStr (snd opt) else PyBool True)"

definition appears :: "opts \<Rightarrow> string \<Rightarrow> string \<Rightarrow> bool" where
  "appears opts flag short =
     (\<exists>opt \<in> set opts. fst opt = ''--'' @ flag \<or> (short \<noteq> [] \<and> fst opt = ''-'' @ short))"

definition wf_token :: "string \<Rightarrow> bool" where
  "wf_token t = (2 \<le> length t \<and> hd t = CHR ''-'' \<and> (length t = 2 \<or> t ! 1 = CHR ''-''))"

text \<open>
  The option column as the specification words it: \<^verbatim>\<open>-{short}, --{long}[=<placeholder>]\<close>
  with a short letter, \<^verbatim>\<open>--{long}[=<placeholder>]\<close> without.
\<close>

definition spec_optline :: "string \<Rightarrow> optval \<Rightarrow> string" where
  "spec_optline flag val =
     (case val of (short, arg, desc) \<Rightarrow>
        (if short \<noteq> [] then ''-'' @ short @ '', --'' else ''--'')
        @ flag @ (if truthy arg then ''='' @ argument arg else []))"

section \<open>Example commands\<close>

text \<open>A dispatcher with one registered subcommand, after construction.\<close>

definition build_registry :: "string \<rightharpoonup> (string list \<Rightarrow> string list)" where
  "build_registry = [''build'' \<mapsto> (\<lambda>argv. ''built'' # argv)]"

definition dispatcher :: "string list \<Rightarrow> string list command" where
  "dispatcher positionals =
     \<lparr>usagestr = ''usage: tool <command>'', description = [], optionList = [],
      usageTextExtra = [], commands = build_registry,
      error = None, flags = dictobject Map.empty, args = positionals,
      parentFlags = Map.empty, usage = ''usage: tool <command>''\<rparr>"

text \<open>The option list of the docstring of \<^verbatim>\<open>CommandBase.optionList\<close>.\<close>

definition example_options :: option_table where
  "example_options =
     [(''help'', (''h'', None, ''show this help information'')),
      (''dry-run'', (''n'', None, ''only print output without actually running'')),
      (''file'', (''f'', Some ''<filename>'', ''use specified file'')),
      (''debug'', ([], None, ''show debug information''))]"

definition example_class :: "string list command_class" where
  "example_class =
     \<lparr>usagestr = ''usage: command [options]'', description = [],
      optionList = example_options, usageTextExtra = [], commands = build_registry\<rparr>"

text \<open>A table with one option that has a short letter and an argument.\<close>

definition file_option :: option_table where
  "file_option = [(''file'', (''f'', Some ''<filename>'', ''use specified file''))]"

text \<open>A table in which two options have the dash as their short letter.\<close>

definition dash_options :: option_table where
  "dash_options =
     [(''all'', (''a'', None, ''select everything'')),
      (''stdin'', (''-'', None, ''read standard input'')),
      (''stdout'', (''-'', None, ''write standard output''))]"

definition dash_class :: "string list command_class" where
  "dash_class =
     \<lparr>usagestr = ''usage: filter [options]'', description = [],
      optionList = dash_options, usageTextExtra = [], commands = Map.empty\<rparr>"

text \<open>A \<^verbatim>\<open>run\<close> method of a subclass that prints a line and returns nothing.\<close>

definition hello_run :: "string list command \<Rightarrow> string \<times> (exception + unit pyobject)" where
  "hello_run self = (print ''hello'', Inr ObjNone)"

text \<open>A \<^verbatim>\<open>run\<close> method of a subclass that prints nothing and returns the integer \<open>n\<close>.\<close>

definition status_run :: "int \<Rightarrow> string list command \<Rightarrow> string \<times> (exception + unit pyobject)" where
  "status_run n self = ([], Inr (ObjInt n))"

text \<open>A table in which a boolean option and an option with an argument share a letter.\<close>

definition shared_options :: option_table where
  "shared_options =
     [(''verbose'', (''v'', None, ''print more'')),
      (''version'', (''v'', Some ''<n>'', ''select a version''))]"

definition shared_class :: "string list command_class" where
  "shared_class =
     \<lparr>usagestr = ''usage: tool [options]'', description = [],
      optionList = shared_options, usageTextExtra = [], commands = Map.empty\<rparr>"

section \<open>Facts about the loops of the constructor\<close>

lemma OrderedDict_fold_keys:
  "fst ` set (fold (\<lambda>(k, v) d. AList.update k v d) pairs d) = fst ` set pairs \<union> fst ` set d"
proof (induction pairs arbitrary: d)
  case Nil
  show ?case by simp
next
  case (Cons p pairs)
  obtain k v where p: "p = (k, v)"
    by (cases p)
  have "fst ` set (fold (\<lambda>(k, v) d. AList.update k v d) (p # pairs) d) =
        fst ` set pairs \<union> fst ` set (AList.update k v d)"
    unfolding p by (simp add: Cons.IH)
  also have "\<dots> = fst ` set (p # pairs) \<union> fst ` set d"
    unfolding p by (simp add: dom_update)
  finally show ?case .
qed

lemma OrderedDict_fold_distinct:
  "distinct (map fst d) \<Longrightarrow> distinct (map fst (fold (\<lambda>(k, v) d. AList.update k v d) pairs d))"
  by (induction pairs arbitrary: d) (auto simp: distinct_update)

lemma OrderedDict_keys: "fst ` set (OrderedDict pairs) = fst ` set pairs"
  by (simp add: OrderedDict_def OrderedDict_fold_keys)

lemma OrderedDict_distinct: "distinct (map fst (OrderedDict pairs))"
  by (simp add: OrderedDict_def OrderedDict_fold_distinct)

lemma OrderedDict_empty: "OrderedDict pairs = [] \<longleftrightarrow> pairs = []"
  using OrderedDict_keys [of pairs] by (cases pairs) auto

lemma padding_loop_step:
  "padding_loop ((flag, val) # items) p = padding_loop items (max (spec_width (flag, val)) p)"
  by (cases val) (auto simp: spec_width_def Let_def max_def)

lemma padding_loop_Max: "padding_loop items p = Max (insert p (spec_width ` set items))"
proof (induction items arbitrary: p)
  case Nil
  show ?case by simp
next
  case (Cons item items)
  obtain flag val where item: "item = (flag, val)"
    by (cases item)
  have "padding_loop (item # items) p = Max (insert (max (spec_width item) p) (spec_width ` set items))"
    unfolding item padding_loop_step Cons.IH ..
  also have "\<dots> = Max (insert p (spec_width ` set (item # items)))"
  proof (cases "items = []")
    case True
    then show ?thesis by (simp add: max.commute)
  next
    case False
    then have "spec_width ` set items \<noteq> {}" by simp
    then show ?thesis
      by (simp add: insert_commute max.assoc max.commute max.left_commute)
  qed
  finally show ?case .
qed

lemma padding_loop_ge: "(flag, val) \<in> set items \<Longrightarrow> length flag + 2 \<le> padding_loop items p"
proof -
  assume m: "(flag, val) \<in> set items"
  have "spec_width (flag, val) \<le> Max (insert p (spec_width ` set items))"
    using m by (intro Max_ge) auto
  moreover have "length flag + 2 \<le> spec_width (flag, val)"
    by (cases val) (simp add: spec_width_def)
  ultimately show ?thesis
    by (simp only: padding_loop_Max)
qed

lemma usage_loop_eq:
  "usage_loop padding items (lo, so, oh, fl) =
     (lo @ longopts_of items, so @ shortopts_of items, oh @ opthelp_of padding items,
      (\<lambda>name. if name \<in> fst ` set items then Some PyNone else fl name))"
proof (induction items arbitrary: lo so oh fl)
  case Nil
  show ?case
    by (simp add: longopts_of_def shortopts_of_def opthelp_of_def)
next
  case (Cons item items)
  obtain flag val where item: "item = (flag, val)"
    by (cases item)
  show ?case
    unfolding item
    by (simp add: Cons.IH Let_def longopts_of_def shortopts_of_def opthelp_of_def fun_eq_iff)
qed

lemma usage_loop_init:
  "usage_loop padding items ([], [], [], Map.empty) =
     (longopts_of items, shortopts_of items, opthelp_of padding items, unset_flags items)"
  by (simp add: usage_loop_eq unset_flags_def)

lemma CommandBase_init_eq:
  "CommandBase_init tok cls argv =
     (let items = OrderedDict (optionList cls);
          self = \<lparr>usagestr = usagestr cls, description = description cls, optionList = items,
                  usageTextExtra = usageTextExtra cls, commands = commands cls,
                  error = None, flags = dict (unset_flags items), args = [],
                  parentFlags = Map.empty, usage = usage_text cls items\<rparr>
      in case tok argv (shortopts_of items) (longopts_of items) of
           Inl err \<Rightarrow> Inr (self\<lparr>error := Some err\<rparr>)
         | Inr (opts, rest) \<Rightarrow>
             (case match_options items opts (unset_flags items) of
                Inl e \<Rightarrow> Inl e
              | Inr fl' \<Rightarrow> Inr (self\<lparr>args := rest, flags := dictobject fl'\<rparr>)))"
  by (simp add: CommandBase_init_def usage_loop_init Let_def usage_text_def
        split: sum.splits prod.splits)

lemma match_option_step:
  assumes "char_at (fst opt) 1 = Inr c"
  shows "match_option ((flag, val) # items) opt fl =
         match_option items opt (if hits opt flag val then fl(flag \<mapsto> flag_value val opt) else fl)"
proof -
  have c1: "fst opt ! 1 = c"
    using assms by (simp add: char_at_def split: if_splits)
  show ?thesis
    using assms c1 by (simp add: hits_def flag_value_def)
qed


lemma match_option_Inr:
  assumes "match_option items opt fl = Inr fl'" "distinct (map fst items)"
  shows "fl' name = (case map_of items name of
                       None \<Rightarrow> fl name
                     | Some val \<Rightarrow> if hits opt name val then Some (flag_value val opt) else fl name)"
  using assms
proof (induction items arbitrary: fl)
  case Nil
  then show ?case by simp
next
  case (Cons item items)
  obtain flag val where item: "item = (flag, val)"
    by (cases item)
  from Cons.prems(1) obtain c where c: "char_at (fst opt) 1 = Inr c"
    unfolding item by (cases "char_at (fst opt) 1") simp_all
  define fl1 where "fl1 = (if hits opt flag val then fl(flag \<mapsto> flag_value val opt) else fl)"
  have step: "match_option items opt fl1 = Inr fl'"
    using Cons.prems(1) unfolding item match_option_step [OF c] fl1_def .
  have d: "distinct (map fst items)" and nokey: "map_of items flag = None"
    using Cons.prems(2) unfolding item by (simp_all add: map_of_eq_None_iff)
  have ih: "fl' name = (case map_of items name of
                       None \<Rightarrow> fl1 name
                     | Some val \<Rightarrow> if hits opt name val then Some (flag_value val opt) else fl1 name)"
    using Cons.IH [OF step d] .
  show ?case
  proof (cases "name = flag")
    case True
    then show ?thesis
      unfolding item using ih nokey by (simp add: fl1_def)
  next
    case False
    then have "fl1 name = fl name"
      by (simp add: fl1_def)
    then show ?thesis
      unfolding item using ih False by (simp split: option.splits)
  qed
qed


lemma match_option_ok:
  "2 \<le> length (fst opt) \<Longrightarrow> \<exists>fl'. match_option items opt fl = Inr fl'"
  by (induction items arbitrary: fl) (auto simp: char_at_def)

lemma match_options_Inr:
  assumes "match_options items opts fl = Inr fl'" "distinct (map fst items)"
  shows "fl' name = (case map_of items name of
                       None \<Rightarrow> fl name
                     | Some val \<Rightarrow>
                         (case filter (\<lambda>opt. hits opt name val) opts of
                            [] \<Rightarrow> fl name
                          | h # hs \<Rightarrow> Some (flag_value val (last (h # hs)))))"
  using assms
proof (induction opts arbitrary: fl)
  case Nil
  then show ?case by (simp split: option.splits)
next
  case (Cons opt opts)
  from Cons.prems(1) obtain fl1 where fl1: "match_option items opt fl = Inr fl1"
    and rest: "match_options items opts fl1 = Inr fl'"
    by (cases "match_option items opt fl") simp_all
  note a = match_option_Inr [OF fl1 Cons.prems(2), of name]
  note b = Cons.IH [OF rest Cons.prems(2)]
  show ?case
  proof (cases "map_of items name")
    case None
    then show ?thesis using a b by simp
  next
    case (Some val)
    show ?thesis
    proof (cases "filter (\<lambda>opt. hits opt name val) opts")
      case Nil
      then show ?thesis using a b Some by simp
    next
      case (Cons h hs)
      then show ?thesis using a b Some by simp
    qed
  qed
qed

lemma hits_iff_appears:
  assumes "wf_token (fst opt)" "take 1 short \<noteq> ''-''"
  shows "hits opt flag (short, arg, desc) \<longleftrightarrow>
         (fst opt = ''--'' @ flag \<or> (short \<noteq> [] \<and> fst opt = ''-'' @ short))"
proof -
  obtain a b t where t: "fst opt = a # b # t"
    using assms(1) by (cases "fst opt"; cases "tl (fst opt)") (auto simp: wf_token_def)
  then have a: "a = CHR ''-''" and tb: "t = [] \<or> b = CHR ''-''"
    using assms(1) by (auto simp: wf_token_def)
  show ?thesis
  proof (cases "b = CHR ''-''")
    case True
    have "short \<noteq> b # t"
      using assms(2) True by auto
    then show ?thesis
      unfolding hits_def t a using True by auto
  next
    case False
    then have "t = []" using tb by simp
    then show ?thesis
      unfolding hits_def t a using False by auto
  qed
qed

lemma wf_short: "wf_token (''-'' @ [c])"
  by (simp add: wf_token_def)

lemma wf_long: "wf_token (''--'' @ name)"
  by (simp add: wf_token_def)

lemma do_shorts_tokens:
  "do_shorts opts optstring shortopts as = Inr (opts', as') \<Longrightarrow>
   \<forall>t \<in> set opts. wf_token (fst t) \<Longrightarrow> \<forall>t \<in> set opts'. wf_token (fst t)"
proof (induction optstring arbitrary: opts)
  case Nil
  then show ?case by simp
next
  case (Cons c optstring)
  show ?case
  proof (cases "short_has_arg c shortopts")
    case (Inl e)
    then show ?thesis using Cons.prems by simp
  next
    case (Inr b)
    show ?thesis
    proof (cases b)
      case False
      have "\<forall>t \<in> set (opts @ [(''-'' @ [c], [])]). wf_token (fst t)"
        using Cons.prems(2) wf_short [of c] by simp
      moreover have "do_shorts (opts @ [(''-'' @ [c], [])]) optstring shortopts as = Inr (opts', as')"
        using Cons.prems(1) Inr False by simp
      ultimately show ?thesis
        using Cons.IH by blast
    next
      case True
      then have "\<exists>v. opts' = opts @ [(''-'' @ [c], v)]"
        using Cons.prems(1) Inr by (auto split: if_splits list.splits)
      then show ?thesis
        using Cons.prems(2) wf_short [of c] by auto
    qed
  qed
qed


lemma do_longs_Inr:
  "do_longs opts opt longopts as = Inr (opts', as') \<Longrightarrow> \<exists>name v. opts' = opts @ [(''--'' @ name, v)]"
  by (auto simp: do_longs_def Let_def split: sum.splits if_splits option.splits list.splits prod.splits)

lemma do_longs_tokens:
  assumes "do_longs opts opt longopts as = Inr (opts', as')" "\<forall>t \<in> set opts. wf_token (fst t)"
  shows "\<forall>t \<in> set opts'. wf_token (fst t)"
proof -
  obtain name v where "opts' = opts @ [(''--'' @ name, v)]"
    using do_longs_Inr [OF assms(1)] by blast
  then show ?thesis
    using assms(2) wf_long [of name] by auto
qed

lemma getopt_loop_tokens:
  "getopt_loop opts as shortopts longopts = Inr (opts', as') \<Longrightarrow>
   \<forall>t \<in> set opts. wf_token (fst t) \<Longrightarrow> \<forall>t \<in> set opts'. wf_token (fst t)"
proof (induction opts as shortopts longopts rule: getopt_loop.induct)
  case (1 opts shortopts longopts)
  then show ?case by simp
next
  case (2 opts a as shortopts longopts)
  show ?case
  proof (cases "take 1 a = ''-'' \<and> a \<noteq> ''-''")
    case False
    then have "opts' = opts"
      using "2.prems"(1) by (simp split: if_splits)
    then show ?thesis
      using "2.prems"(2) by simp
  next
    case isopt: True
    show ?thesis
    proof (cases "a = ''--''")
      case True
      then have "opts' = opts"
        using "2.prems"(1) by simp
      then show ?thesis
        using "2.prems"(2) by simp
    next
      case nodd: False
      show ?thesis
      proof (cases "take 2 a = ''--''")
        case True
        from "2.prems"(1) isopt nodd True
        have "(case do_longs opts (drop 2 a) longopts as of
                 Inl e \<Rightarrow> Inl e
               | Inr (o1, a1) \<Rightarrow> getopt_loop o1 a1 shortopts longopts) = Inr (opts', as')"
          by simp
        then obtain o1 a1 where dl: "do_longs opts (drop 2 a) longopts as = Inr (o1, a1)"
          and rec: "getopt_loop o1 a1 shortopts longopts = Inr (opts', as')"
          by (cases "do_longs opts (drop 2 a) longopts as") auto
        have "\<forall>t \<in> set o1. wf_token (fst t)"
          using do_longs_tokens [OF dl "2.prems"(2)] .
        then show ?thesis
          using "2.IH"(1) [OF isopt nodd True dl refl rec] by simp
      next
        case False
        from "2.prems"(1) isopt nodd False
        have "(case do_shorts opts (drop 1 a) shortopts as of
                 Inl e \<Rightarrow> Inl e
               | Inr (o1, a1) \<Rightarrow> getopt_loop o1 a1 shortopts longopts) = Inr (opts', as')"
          by simp
        then obtain o1 a1 where ds: "do_shorts opts (drop 1 a) shortopts as = Inr (o1, a1)"
          and rec: "getopt_loop o1 a1 shortopts longopts = Inr (opts', as')"
          by (cases "do_shorts opts (drop 1 a) shortopts as") auto
        have "\<forall>t \<in> set o1. wf_token (fst t)"
          using do_shorts_tokens [OF ds "2.prems"(2)] .
        then show ?thesis
          using "2.IH"(2) [OF isopt nodd False ds refl rec] by simp
      qed
    qed
  qed
qed

lemma getopt_tokens:
  "getopt argv shortopts longopts = Inr (opts, rest) \<Longrightarrow> \<forall>t \<in> set opts. wf_token (fst t)"
  unfolding getopt_def using getopt_loop_tokens [of "[]" argv shortopts longopts opts rest] by simp

lemma getopt_first_positional:
  assumes "argv \<noteq> [] \<longrightarrow> \<not> (take 1 (hd argv) = ''-'' \<and> hd argv \<noteq> ''-'')"
  shows "getopt argv shortopts longopts = Inr ([], argv)"
proof (cases argv)
  case Nil
  then show ?thesis by (simp add: getopt_def)
next
  case (Cons a rest)
  then have "\<not> (take 1 a = ''-'' \<and> a \<noteq> ''-'')"
    using assms by simp
  then have "getopt_loop [] (a # rest) shortopts longopts = Inr ([], a # rest)"
    by (subst getopt_loop.simps) (simp only: if_False)
  then show ?thesis
    by (simp only: getopt_def Cons)
qed

lemma getopt_loop_length:
  "getopt_loop acc xs shortopts longopts = Inr (acc', r) \<Longrightarrow> length r \<le> length xs"
proof (induction acc xs shortopts longopts rule: getopt_loop.induct)
  case (1 acc shortopts longopts)
  then show ?case by simp
next
  case (2 acc a xs shortopts longopts)
  show ?case
  proof (cases "take 1 a = ''-'' \<and> a \<noteq> ''-''")
    case False
    with 2(3) show ?thesis by (simp only: getopt_loop.simps if_False) simp
  next
    case opt: True
    show ?thesis
    proof (cases "a = ''--''")
      case True
      with 2(3) show ?thesis by simp
    next
      case nd: False
      show ?thesis
      proof (cases "take 2 a = ''--''")
        case True
        with opt nd 2(3) obtain o1 a1 where d: "do_longs acc (drop 2 a) longopts xs = Inr (o1, a1)"
          and g: "getopt_loop o1 a1 shortopts longopts = Inr (acc', r)"
          by (simp split: sum.splits prod.splits)
        from "2.IH"(1) [OF opt nd True d refl g] have "length r \<le> length a1" .
        moreover have "length a1 \<le> length xs" using do_longs_length [OF d] .
        ultimately show ?thesis by simp
      next
        case False
        with opt nd 2(3) obtain o1 a1 where d: "do_shorts acc (drop 1 a) shortopts xs = Inr (o1, a1)"
          and g: "getopt_loop o1 a1 shortopts longopts = Inr (acc', r)"
          by (simp split: sum.splits prod.splits)
        from "2.IH"(2) [OF opt nd False d refl g] have "length r \<le> length a1" .
        moreover have "length a1 \<le> length xs" using do_shorts_length [OF d] .
        ultimately show ?thesis by simp
      qed
    qed
  qed
qed

text \<open>
  Conversely, when the first argument begins with a dash and is not the single dash, the
  tokenizer consumes it or fails: the positional arguments are never the whole argument
  vector.
\<close>

lemma getopt_leading_option:
  assumes "argv \<noteq> []" "take 1 (hd argv) = ''-''" "hd argv \<noteq> ''-''"
    and "getopt argv shortopts longopts = Inr (acc, rest)"
  shows "length rest < length argv"
proof -
  obtain a xs where argv: "argv = a # xs"
    using assms(1) by (cases argv) auto
  have opt: "take 1 a = ''-'' \<and> a \<noteq> ''-''"
    using assms(2,3) argv by simp
  have g: "getopt_loop [] (a # xs) shortopts longopts = Inr (acc, rest)"
    using assms(4) argv by (simp add: getopt_def)
  show ?thesis
  proof (cases "a = ''--''")
    case True
    with g argv show ?thesis by simp
  next
    case nd: False
    show ?thesis
    proof (cases "take 2 a = ''--''")
      case True
      with opt nd g obtain o1 a1 where d: "do_longs [] (drop 2 a) longopts xs = Inr (o1, a1)"
        and g1: "getopt_loop o1 a1 shortopts longopts = Inr (acc, rest)"
        by (simp split: sum.splits prod.splits)
      from getopt_loop_length [OF g1] do_longs_length [OF d] argv show ?thesis
        by simp
    next
      case False
      with opt nd g obtain o1 a1 where d: "do_shorts [] (drop 1 a) shortopts xs = Inr (o1, a1)"
        and g1: "getopt_loop o1 a1 shortopts longopts = Inr (acc, rest)"
        by (simp split: sum.splits prod.splits)
      from getopt_loop_length [OF g1] do_shorts_length [OF d] argv show ?thesis
        by simp
    qed
  qed
qed

lemma match_options_ok:
  "\<forall>opt \<in> set opts. 2 \<le> length (fst opt) \<Longrightarrow> \<exists>fl'. match_options items opts fl = Inr fl'"
proof (induction opts arbitrary: fl)
  case Nil
  show ?case by simp
next
  case (Cons opt opts)
  then obtain fl1 where "match_option items opt fl = Inr fl1"
    using match_option_ok [of opt items fl] by auto
  then show ?case
    using Cons by simp
qed

lemma init_success:
  assumes "tok argv (shortopts_of (OrderedDict (optionList cls)))
             (longopts_of (OrderedDict (optionList cls))) = Inr (opts, rest)"
    and "match_options (OrderedDict (optionList cls)) opts
           (unset_flags (OrderedDict (optionList cls))) = Inr fl'"
  shows "\<exists>c. CommandBase_init tok cls argv = Inr c \<and> error c = None \<and> args c = rest \<and>
             flags c = dictobject fl' \<and> optionList c = OrderedDict (optionList cls) \<and>
             usage c = usage_text cls (OrderedDict (optionList cls))"
  using assms by (simp add: CommandBase_init_eq Let_def)

lemma init_failure:
  assumes "tok argv (shortopts_of (OrderedDict (optionList cls)))
             (longopts_of (OrderedDict (optionList cls))) = Inl err"
  shows "\<exists>c. CommandBase_init tok cls argv = Inr c \<and> error c = Some err \<and> args c = [] \<and>
             flags c = dict (unset_flags (OrderedDict (optionList cls))) \<and>
             optionList c = OrderedDict (optionList cls) \<and>
             usage c = usage_text cls (OrderedDict (optionList cls))"
  using assms by (simp add: CommandBase_init_eq Let_def)

lemma init_Inr_cases:
  assumes "CommandBase_init tok cls argv = Inr c"
  shows "(\<exists>err. tok argv (shortopts_of (OrderedDict (optionList cls)))
                  (longopts_of (OrderedDict (optionList cls))) = Inl err \<and>
               error c = Some err \<and> args c = [] \<and>
               flags c = dict (unset_flags (OrderedDict (optionList cls)))) \<or>
         (\<exists>opts rest fl'. tok argv (shortopts_of (OrderedDict (optionList cls)))
                  (longopts_of (OrderedDict (optionList cls))) = Inr (opts, rest) \<and>
               match_options (OrderedDict (optionList cls)) opts
                  (unset_flags (OrderedDict (optionList cls))) = Inr fl' \<and>
               error c = None \<and> args c = rest \<and> flags c = dictobject fl')"
proof (cases "tok argv (shortopts_of (OrderedDict (optionList cls)))
                  (longopts_of (OrderedDict (optionList cls)))")
  case (Inl err)
  from init_failure [where tok = tok and argv = argv, OF this] assms show ?thesis
    using Inl by auto
next
  case (Inr p)
  obtain opts rest where p: "p = (opts, rest)"
    by (cases p)
  show ?thesis
  proof (cases "match_options (OrderedDict (optionList cls)) opts
                  (unset_flags (OrderedDict (optionList cls)))")
    case (Inl e)
    then have "CommandBase_init tok cls argv = Inl e"
      using Inr p by (simp add: CommandBase_init_eq Let_def)
    then show ?thesis using assms by simp
  next
    case fl: (Inr fl')
    from init_success [where tok = tok and argv = argv, OF Inr [unfolded p] fl] assms show ?thesis
      using Inr p fl by auto
  qed
qed

lemma final_flags:
  assumes "match_options items opts (unset_flags items) = Inr fl'" "distinct (map fst items)"
  shows "fl' name = (case map_of items name of
                       None \<Rightarrow> None
                     | Some val \<Rightarrow>
                         (case filter (\<lambda>opt. hits opt name val) opts of
                            [] \<Rightarrow> Some PyNone
                          | h # hs \<Rightarrow> Some (flag_value val (last (h # hs)))))"
proof (cases "map_of items name")
  case None
  then have "name \<notin> fst ` set items"
    by (simp add: map_of_eq_None_iff)
  then show ?thesis
    using match_options_Inr [OF assms, of name] None by (simp add: unset_flags_def)
next
  case (Some val)
  then have "name \<in> fst ` set items"
    by (metis map_of_eq_None_iff option.distinct(1))
  then show ?thesis
    using match_options_Inr [OF assms, of name] Some
    by (simp add: unset_flags_def split: list.splits)
qed

lemma final_flags_dom:
  assumes "match_options items opts (unset_flags items) = Inr fl'" "distinct (map fst items)"
  shows "dom fl' = fst ` set items"
proof -
  have "fl' name = None \<longleftrightarrow> map_of items name = None" for name
    using final_flags [OF assms, of name]
    by (cases "map_of items name") (simp_all split: list.splits)
  then have "fl' name = None \<longleftrightarrow> name \<notin> fst ` set items" for name
    by (simp add: map_of_eq_None_iff)
  then show ?thesis
    by (auto simp: dom_def)
qed

lemma init_getopt_total: "\<exists>c. CommandBase_init getopt cls argv = Inr c"
proof (cases "getopt argv (shortopts_of (OrderedDict (optionList cls)))
                  (longopts_of (OrderedDict (optionList cls)))")
  case (Inl err)
  from init_failure [where tok = getopt and argv = argv, OF this] show ?thesis by blast
next
  case (Inr p)
  obtain opts rest where p: "p = (opts, rest)"
    by (cases p)
  have "\<forall>t \<in> set opts. 2 \<le> length (fst t)"
    using getopt_tokens [OF Inr [unfolded p]] by (simp add: wf_token_def)
  then obtain fl' where "match_options (OrderedDict (optionList cls)) opts
           (unset_flags (OrderedDict (optionList cls))) = Inr fl'"
    using match_options_ok by blast
  from init_success [where tok = getopt and argv = argv, OF Inr [unfolded p] this] show ?thesis by blast
qed

lemma appears_iff_hits:
  assumes "\<forall>t \<in> set opts. wf_token (fst t)" "take 1 short \<noteq> ''-''"
  shows "appears opts flag short \<longleftrightarrow> filter (\<lambda>opt. hits opt flag (short, arg, desc)) opts \<noteq> []"
proof -
  have "filter (\<lambda>opt. hits opt flag (short, arg, desc)) opts \<noteq> [] \<longleftrightarrow>
        (\<exists>opt \<in> set opts. hits opt flag (short, arg, desc))"
    by (simp add: filter_empty_conv)
  also have "\<dots> \<longleftrightarrow> (\<exists>opt \<in> set opts. fst opt = ''--'' @ flag \<or> (short \<noteq> [] \<and> fst opt = ''-'' @ short))"
    using hits_iff_appears [OF _ assms(2)] assms(1) by blast
  finally show ?thesis
    by (simp add: appears_def)
qed

lemma run_and_exit_uncaught:
  assumes "CommandBase_init tok cls (drop 1 sys_argv) = Inr cmd" "error cmd = None"
    "run_method cmd = (out, Inl e)"
  shows "run_and_exit tok run_method cls sys_argv = (out, Uncaught e)"
  using assms by (simp add: run_and_exit_def)

lemma init_usage:
  assumes "CommandBase_init tok cls argv = Inr c"
  shows "usage c = usage_text cls (OrderedDict (optionList cls))"
proof (cases "tok argv (shortopts_of (OrderedDict (optionList cls)))
                  (longopts_of (OrderedDict (optionList cls)))")
  case (Inl err)
  from init_failure [where tok = tok and argv = argv, OF this] assms show ?thesis
    by auto
next
  case (Inr p)
  obtain opts rest where p: "p = (opts, rest)"
    by (cases p)
  show ?thesis
  proof (cases "match_options (OrderedDict (optionList cls)) opts
                  (unset_flags (OrderedDict (optionList cls)))")
    case (Inl e)
    then have "CommandBase_init tok cls argv = Inl e"
      using Inr p by (simp add: CommandBase_init_eq Let_def)
    then show ?thesis using assms by simp
  next
    case fl: (Inr fl')
    from init_success [where tok = tok and argv = argv, OF Inr [unfolded p] fl] assms show ?thesis
      by auto
  qed
qed

text \<open>
  With short letters of at most one character, the width that the padding loop counts for
  an option is the length of its rendered option column: the argument text is counted
  twice because it is written twice, after the short letter and after the long flag.
\<close>

lemma optline_length:
  "length short \<le> 1 \<Longrightarrow> length (optline flag (short, arg, desc)) = spec_width (flag, short, arg, desc)"
  by (cases short) (auto simp: optline_def flagstring_long_def flagstring_short_def spec_width_def)

section \<open>The example command, evaluated\<close>

lemma example_items: "OrderedDict (optionList example_class) = example_options"
  by (simp add: example_class_def example_options_def OrderedDict_def)

lemma example_shortopts: "shortopts_of example_options = ''hnf:''"
  by (simp add: example_options_def shortopts_of_def)

lemma example_longopts:
  "longopts_of example_options = [''help'', ''dry-run'', ''file='', ''debug'']"
  by (simp add: example_options_def longopts_of_def)

lemma example_bogus:
  "getopt [''--bogus''] ''hnf:'' [''help'', ''dry-run'', ''file='', ''debug''] =
     Inl (GetoptError ''option --bogus not recognized'' ''bogus'')"
  by (simp add: getopt_def do_longs_def long_has_args_def)

lemma example_getopt_h_dry:
  "getopt [''-h'', ''--dry'', ''x''] ''hnf:'' [''help'', ''dry-run'', ''file='', ''debug''] =
     Inr ([(''-h'', []), (''--dry-run'', [])], [''x''])"
  by (simp add: getopt_def do_longs_def long_has_args_def)

lemma dash_items: "OrderedDict (optionList dash_class) = dash_options"
  by (simp add: dash_class_def dash_options_def OrderedDict_def)

lemma dash_shortopts: "shortopts_of dash_options = ''a--''"
  by (simp add: dash_options_def shortopts_of_def)

lemma dash_longopts: "longopts_of dash_options = [''all'', ''stdin'', ''stdout'']"
  by (simp add: dash_options_def longopts_of_def)

lemma dash_getopt:
  "getopt [''-a-''] ''a--'' [''all'', ''stdin'', ''stdout''] = Inr ([(''-a'', []), (''--'', [])], [])"
  by (simp add: getopt_def)

lemma dash_match:
  "match_options dash_options [(''-a'', []), (''--'', [])] (unset_flags dash_options) =
     Inr ((unset_flags dash_options)(''all'' \<mapsto> PyBool True))"
  by (simp add: dash_options_def char_at_def)

lemma dash_init:
  "\<exists>c. CommandBase_init getopt dash_class [''-a-''] = Inr c \<and> error c = None \<and>
       flags c = dictobject ((unset_flags dash_options)(''all'' \<mapsto> PyBool True))"
proof -
  have g: "getopt [''-a-''] (shortopts_of (OrderedDict (optionList dash_class)))
             (longopts_of (OrderedDict (optionList dash_class))) =
           Inr ([(''-a'', []), (''--'', [])], [])"
    by (simp only: dash_items dash_shortopts dash_longopts dash_getopt)
  have m: "match_options (OrderedDict (optionList dash_class)) [(''-a'', []), (''--'', [])]
             (unset_flags (OrderedDict (optionList dash_class))) =
           Inr ((unset_flags dash_options)(''all'' \<mapsto> PyBool True))"
    by (simp only: dash_items dash_match)
  from init_success [where tok = getopt and argv = "[''-a-'']", OF g m] show ?thesis
    by blast
qed

lemma shared_items: "OrderedDict (optionList shared_class) = shared_options"
  by (simp add: shared_class_def shared_options_def OrderedDict_def)

lemma shared_shortopts: "shortopts_of shared_options = ''vv:''"
  by (simp add: shared_options_def shortopts_of_def)

lemma shared_longopts: "longopts_of shared_options = [''verbose'', ''version='']"
  by (simp add: shared_options_def longopts_of_def)

lemma shared_getopt:
  "getopt [''-v''] ''vv:'' [''verbose'', ''version=''] = Inr ([([CHR ''-'', CHR ''v''], [])], [])"
  by (simp add: getopt_def)

lemma example_getopt_f:
  "getopt [''-f'', ''out.txt'', ''extra''] ''hnf:'' [''help'', ''dry-run'', ''file='', ''debug''] =
     Inr ([(''-f'', ''out.txt'')], [''extra''])"
  by (simp add: getopt_def)

lemma example_match_f:
  "match_options example_options [(''-f'', ''out.txt'')] (unset_flags example_options) =
     Inr ((unset_flags example_options)(''file'' \<mapsto> PyStr ''out.txt''))"
  by (simp add: example_options_def char_at_def)

lemma example_init_f:
  "\<exists>c. CommandBase_init getopt example_class [''-f'', ''out.txt'', ''extra''] = Inr c \<and>
       error c = None \<and> args c = [''extra''] \<and>
       flags c = dictobject ((unset_flags example_options)(''file'' \<mapsto> PyStr ''out.txt''))"
proof -
  have g: "getopt [''-f'', ''out.txt'', ''extra''] (shortopts_of (OrderedDict (optionList example_class)))
             (longopts_of (OrderedDict (optionList example_class))) =
           Inr ([(''-f'', ''out.txt'')], [''extra''])"
    by (simp only: example_items example_shortopts example_longopts example_getopt_f)
  have m: "match_options (OrderedDict (optionList example_class)) [(''-f'', ''out.txt'')]
             (unset_flags (OrderedDict (optionList example_class))) =
           Inr ((unset_flags example_options)(''file'' \<mapsto> PyStr ''out.txt''))"
    by (simp only: example_items example_match_f)
  from init_success [where tok = getopt and argv = "[''-f'', ''out.txt'', ''extra'']", OF g m]
  show ?thesis
    by blast
qed

lemma example_init_empty:
  "\<exists>c. CommandBase_init getopt example_class [] = Inr c \<and> error c = None \<and> args c = [] \<and>
       flags c = dictobject (unset_flags example_options)"
proof -
  have g: "getopt [] (shortopts_of (OrderedDict (optionList example_class)))
             (longopts_of (OrderedDict (optionList example_class))) = Inr ([], [])"
    by (simp add: getopt_def)
  have m: "match_options (OrderedDict (optionList example_class)) []
             (unset_flags (OrderedDict (optionList example_class))) =
           Inr (unset_flags example_options)"
    by (simp add: example_items)
  from init_success [where tok = getopt and argv = "[]", OF g m]
  show ?thesis
    by blast
qed

lemma example_init_bogus:
  "\<exists>c. CommandBase_init getopt example_class [''--bogus''] = Inr c \<and>
       error c = Some (GetoptError ''option --bogus not recognized'' ''bogus'')"
proof -
  have h: "getopt [''--bogus''] (shortopts_of (OrderedDict (optionList example_class)))
             (longopts_of (OrderedDict (optionList example_class))) =
           Inl (GetoptError ''option --bogus not recognized'' ''bogus'')"
    by (simp only: example_items example_shortopts example_longopts example_bogus)
  from init_failure [where tok = getopt and argv = "[''--bogus'']", OF h]
  show ?thesis
    by blast
qed

lemma example_padding: "padding_loop example_options 0 = 32"
  by (simp add: example_options_def Let_def)

lemma example_opthelp:
  "fst (snd (snd (usage_loop 32 example_options ([], [], [], Map.empty)))) =
     ''-h, --help                        show this help information'' @ [CHR 0x0A]
       @ ''-n, --dry-run                     only print output without actually running'' @ [CHR 0x0A]
       @ ''-f <filename>, --file=<filename>  use specified file'' @ [CHR 0x0A]
       @ ''--debug                           show debug information'' @ [CHR 0x0A]"
  by (simp add: example_options_def Let_def optline_def flagstring_long_def flagstring_short_def
        format_width_def eval_nat_numeral)

lemma file_option_padding: "padding_loop file_option 0 = 32"
  by (simp add: file_option_def Let_def)

lemma example_getopt_double_dash:
  "getopt [''--'', ''x''] ''hnf:'' [''help'', ''dry-run'', ''file='', ''debug''] = Inr ([], [''x''])"
  by (simp add: getopt_def)

lemma example_init_double_dash:
  "\<exists>c. CommandBase_init getopt example_class [''--'', ''x''] = Inr c \<and> error c = None \<and>
       args c = [''x''] \<and> flags c = dictobject (unset_flags example_options)"
proof -
  have g: "getopt [''--'', ''x''] (shortopts_of (OrderedDict (optionList example_class)))
             (longopts_of (OrderedDict (optionList example_class))) = Inr ([], [''x''])"
    by (simp only: example_items example_shortopts example_longopts example_getopt_double_dash)
  have m: "match_options (OrderedDict (optionList example_class)) []
             (unset_flags (OrderedDict (optionList example_class))) =
           Inr (unset_flags example_options)"
    by (simp add: example_items)
  from init_success [where tok = getopt and argv = "[''--'', ''x'']", OF g m]
  show ?thesis
    by blast
qed

lemma shared_getopt_bogus:
  "getopt [''-v'', ''--bogus''] ''vv:'' [''verbose'', ''version=''] =
     Inl (GetoptError ''option --bogus not recognized'' ''bogus'')"
  by (simp add: getopt_def do_longs_def long_has_args_def)
section \<open>Dispatch by run\<close>

text \<open>
  Claim C1. For every command object, \<open>run\<close> has exactly three outcomes, tried in this
  order: with no positional argument it prints the usage text and raises
  \<open>CommandExit 2\<close>; otherwise, if the first positional argument is a key of \<open>commands\<close>,
  it calls the registered callable with the remaining positional arguments and returns
  its result, printing nothing; otherwise it prints that the command does not exist and
  raises \<open>CommandExit 1\<close>.
\<close>

theorem run_three_outcomes:
  "(args self = [] \<longrightarrow> run self = (print (usage self), Inl (CommandExit 2))) \<and>
   (\<forall>name rest f. args self = name # rest \<and> commands self name = Some f \<longrightarrow>
      run self = ([], Inr (f rest))) \<and>
   (\<forall>name rest. args self = name # rest \<and> commands self name = None \<longrightarrow>
      run self = (print (''error: command '' @ name @ '' does not exist''), Inl (CommandExit 1)))"
  by (auto simp: run_def dom_def)

theorem run_three_outcomes_witness:
  "run (dispatcher []) = (''usage: tool <command>'' @ [CHR 0x0A], Inl (CommandExit 2)) \<and>
   run (dispatcher [''build'', ''-n'']) = ([], Inr [''built'', ''-n'']) \<and>
   run (dispatcher [''deploy'']) =
     (''error: command deploy does not exist'' @ [CHR 0x0A], Inl (CommandExit 1))"
proof -
  have a: "args (dispatcher []) = []"
    by (simp add: dispatcher_def)
  have b: "args (dispatcher [''build'', ''-n'']) = ''build'' # [''-n''] \<and>
           commands (dispatcher [''build'', ''-n'']) ''build'' = Some (\<lambda>argv. ''built'' # argv)"
    by (simp add: dispatcher_def build_registry_def)
  have c: "args (dispatcher [''deploy'']) = ''deploy'' # [] \<and>
           commands (dispatcher [''deploy'']) ''deploy'' = None"
    by (simp add: dispatcher_def build_registry_def)
  from a run_three_outcomes [of "dispatcher []"]
  have 1: "run (dispatcher []) = (print (usage (dispatcher [])), Inl (CommandExit 2))"
    by blast
  from b run_three_outcomes [of "dispatcher [''build'', ''-n'']"]
  have 2: "run (dispatcher [''build'', ''-n'']) = ([], Inr ((\<lambda>argv. ''built'' # argv) [''-n'']))"
    by blast
  from c run_three_outcomes [of "dispatcher [''deploy'']"]
  have 3: "run (dispatcher [''deploy'']) =
      (print (''error: command '' @ ''deploy'' @ '' does not exist''), Inl (CommandExit 1))"
    by blast
  show ?thesis
    using 1 2 3 by (simp add: print_def dispatcher_def)
qed

section \<open>Padding of the option column\<close>

text \<open>
  Claim C2. For every option table the padding of the usage text is the maximum, over
  the declared options, of the width \<open>spec_width\<close>: the length of the long flag plus 2,
  plus 4 with a short letter, plus the length of the argument text plus 1 with a short
  letter and an argument, plus the same again with an argument. (The loop starts from 0,
  which is the padding of the empty table.) So an option with a short letter and an
  argument counts the argument text twice.
\<close>

theorem padding_is_max_width:
  "padding_loop items 0 = Max (insert 0 (spec_width ` set items)) \<and>
   (items \<noteq> [] \<longrightarrow> padding_loop items 0 = Max (spec_width ` set items)) \<and>
   (\<forall>flag short arg desc. short \<noteq> [] \<and> truthy arg \<longrightarrow>
      padding_loop [(flag, short, arg, desc)] 0 = length flag + 2 + 4 + 2 * (length (argument arg) + 1))"
proof (intro conjI impI allI)
  show "padding_loop items 0 = Max (insert 0 (spec_width ` set items))"
    by (rule padding_loop_Max)
next
  assume ne: "items \<noteq> []"
  then have "Max (insert 0 (spec_width ` set items)) = max 0 (Max (spec_width ` set items))"
    by (subst Max_insert) auto
  then show "padding_loop items 0 = Max (spec_width ` set items)"
    by (simp add: padding_loop_Max)
next
  fix flag short :: string and arg desc
  assume "short \<noteq> [] \<and> truthy arg"
  then show "padding_loop [(flag, short, arg, desc)] 0 = length flag + 2 + 4 + 2 * (length (argument arg) + 1)"
    by (simp add: Let_def)
qed

theorem padding_is_max_width_witness:
  "example_options \<noteq> [] \<and> padding_loop example_options 0 = 32 \<and>
   Max (spec_width ` set example_options) = 32 \<and>
   (''f'' \<noteq> [] \<and> truthy (Some ''<filename>'')) \<and>
   padding_loop [(''file'', ''f'', Some ''<filename>'', ''use specified file'')] 0 = 32"
proof -
  have ne: "example_options \<noteq> []"
    by (simp add: example_options_def)
  have p: "padding_loop example_options 0 = 32"
    by (simp add: example_options_def Let_def)
  have ft: "''f'' \<noteq> [] \<and> truthy (Some ''<filename>'')"
    by simp
  from padding_is_max_width [of example_options] ne p
  have m: "Max (spec_width ` set example_options) = 32"
    by simp
  from padding_is_max_width [of example_options] ft
  have "padding_loop [(''file'', ''f'', Some ''<filename>'', ''use specified file'')] 0 =
        length ''file'' + 2 + 4 + 2 * (length (argument (Some ''<filename>'')) + 1)"
    by blast
  then show ?thesis
    using ne p m by simp
qed

section \<open>The option lines of the usage text\<close>

text \<open>
  Claim C3, as amended. For every declared option its usage line is the option column,
  filled with spaces on the right up to the padding width, then two spaces, the
  description and a newline, where the option column is
  \<^verbatim>\<open>-{short} {placeholder}, --{long}={placeholder}\<close> for a short letter and an argument,
  \<^verbatim>\<open>-{short}, --{long}\<close> for a short letter and no argument, and \<^verbatim>\<open>--{long}={placeholder}\<close>
  or \<^verbatim>\<open>--{long}\<close> without a short letter. The lines stand in table order after the
  \<^verbatim>\<open>Options:\<close> header of the usage text of the object, and the padding width there is
  the one that \<open>padding_loop\<close> computes for the table.
\<close>

theorem usage_lines_rendered:
  "fst (snd (snd (usage_loop padding items ([], [], [], Map.empty)))) =
     concat (map (\<lambda>(flag, short, arg, desc).
        format_width
          (if short \<noteq> [] \<and> truthy arg
             then ''-'' @ short @ '' '' @ argument arg @ '', --'' @ flag @ ''='' @ argument arg
           else if short \<noteq> [] then ''-'' @ short @ '', --'' @ flag
           else if truthy arg then ''--'' @ flag @ ''='' @ argument arg
           else ''--'' @ flag) padding
        @ ''  '' @ desc @ [CHR 0x0A]) items) \<and>
   (\<forall>c. CommandBase_init tok cls argv = Inr c \<longrightarrow>
      usage c =
        usagestr cls
        @ (if description cls \<noteq> [] then [CHR 0x0A, CHR 0x0A] @ description cls else [])
        @ (if OrderedDict (optionList cls) \<noteq> []
           then [CHR 0x0A, CHR 0x0A] @ ''Options:'' @ [CHR 0x0A]
                @ fst (snd (snd (usage_loop (padding_loop (OrderedDict (optionList cls)) 0)
                                   (OrderedDict (optionList cls)) ([], [], [], Map.empty))))
           else [])
        @ (if usageTextExtra cls \<noteq> [] then [CHR 0x0A] @ usageTextExtra cls else []))"
proof (intro conjI allI impI)
  have "(\<lambda>(flag, val). format_width (optline flag val) padding @ ''  '' @ snd (snd val) @ [CHR 0x0A]) =
        (\<lambda>(flag, short, arg, desc).
        format_width
          (if short \<noteq> [] \<and> truthy arg
             then ''-'' @ short @ '' '' @ argument arg @ '', --'' @ flag @ ''='' @ argument arg
           else if short \<noteq> [] then ''-'' @ short @ '', --'' @ flag
           else if truthy arg then ''--'' @ flag @ ''='' @ argument arg
           else ''--'' @ flag) padding
        @ ''  '' @ desc @ [CHR 0x0A])"
    by (rule ext) (simp add: optline_def flagstring_long_def flagstring_short_def split: prod.splits)
  then show "fst (snd (snd (usage_loop padding items ([], [], [], Map.empty)))) =
     concat (map (\<lambda>(flag, short, arg, desc).
        format_width
          (if short \<noteq> [] \<and> truthy arg
             then ''-'' @ short @ '' '' @ argument arg @ '', --'' @ flag @ ''='' @ argument arg
           else if short \<noteq> [] then ''-'' @ short @ '', --'' @ flag
           else if truthy arg then ''--'' @ flag @ ''='' @ argument arg
           else ''--'' @ flag) padding
        @ ''  '' @ desc @ [CHR 0x0A]) items)"
    by (simp add: usage_loop_init opthelp_of_def)
next
  fix c
  assume c: "CommandBase_init tok cls argv = Inr c"
  have "usage c = usage_text cls (OrderedDict (optionList cls))"
    using init_usage [OF c] .
  then show "usage c =
        usagestr cls
        @ (if description cls \<noteq> [] then [CHR 0x0A, CHR 0x0A] @ description cls else [])
        @ (if OrderedDict (optionList cls) \<noteq> []
           then [CHR 0x0A, CHR 0x0A] @ ''Options:'' @ [CHR 0x0A]
                @ fst (snd (snd (usage_loop (padding_loop (OrderedDict (optionList cls)) 0)
                                   (OrderedDict (optionList cls)) ([], [], [], Map.empty))))
           else [])
        @ (if usageTextExtra cls \<noteq> [] then [CHR 0x0A] @ usageTextExtra cls else [])"
    by (simp add: usage_text_def usage_loop_init)
qed

theorem usage_lines_rendered_witness:
  "\<exists>c. CommandBase_init getopt example_class [] = Inr c \<and>
       usage c =
         ''usage: command [options]'' @ [CHR 0x0A, CHR 0x0A] @ ''Options:'' @ [CHR 0x0A]
        @ ''-h, --help                        show this help information'' @ [CHR 0x0A]
        @ ''-n, --dry-run                     only print output without actually running'' @ [CHR 0x0A]
        @ ''-f <filename>, --file=<filename>  use specified file'' @ [CHR 0x0A]
        @ ''--debug                           show debug information'' @ [CHR 0x0A]"
proof -
  obtain c where c: "CommandBase_init getopt example_class [] = Inr c"
    using example_init_empty by blast
  have ne: "example_options \<noteq> []"
    by (simp add: example_options_def)
  from usage_lines_rendered [where tok = getopt and cls = example_class and argv = "[]"] c
  have "usage c =
        usagestr example_class
        @ (if description example_class \<noteq> [] then [CHR 0x0A, CHR 0x0A] @ description example_class else [])
        @ (if OrderedDict (optionList example_class) \<noteq> []
           then [CHR 0x0A, CHR 0x0A] @ ''Options:'' @ [CHR 0x0A]
                @ fst (snd (snd (usage_loop (padding_loop (OrderedDict (optionList example_class)) 0)
                                   (OrderedDict (optionList example_class)) ([], [], [], Map.empty))))
           else [])
        @ (if usageTextExtra example_class \<noteq> [] then [CHR 0x0A] @ usageTextExtra example_class else [])"
    by blast
  then have "usage c = ''usage: command [options]'' @ [CHR 0x0A, CHR 0x0A] @ ''Options:'' @ [CHR 0x0A]
      @ fst (snd (snd (usage_loop 32 example_options ([], [], [], Map.empty))))"
    by (simp add: example_items example_padding ne) (simp add: example_class_def)
  then show ?thesis
    using c by (simp add: example_opthelp)
qed

text \<open>
  The claim as stated renders an option with a short letter as
  \<^verbatim>\<open>-{short}, --{long}[=<placeholder>]\<close>; for an option with an argument the constructor
  writes the argument text after the short letter as well.
\<close>

theorem usage_line_counterexample:
  "fst (snd (snd (usage_loop (padding_loop file_option 0) file_option ([], [], [], Map.empty)))) =
     ''-f <filename>, --file=<filename>  use specified file'' @ [CHR 0x0A] \<and>
   spec_optline ''file'' (''f'', Some ''<filename>'', ''use specified file'') = ''-f, --file=<filename>'' \<and>
   fst (snd (snd (usage_loop (padding_loop file_option 0) file_option ([], [], [], Map.empty)))) \<noteq>
     format_width (spec_optline ''file'' (''f'', Some ''<filename>'', ''use specified file''))
       (padding_loop file_option 0) @ ''  '' @ ''use specified file'' @ [CHR 0x0A]"
proof -
  have a: "fst (snd (snd (usage_loop (padding_loop file_option 0) file_option ([], [], [], Map.empty)))) =
     ''-f <filename>, --file=<filename>  use specified file'' @ [CHR 0x0A]"
    unfolding file_option_padding
    by (simp add: file_option_def Let_def optline_def flagstring_long_def flagstring_short_def
          format_width_def)
  have b: "spec_optline ''file'' (''f'', Some ''<filename>'', ''use specified file'') =
           ''-f, --file=<filename>''"
    by (simp add: spec_optline_def)
  have c: "''-f <filename>, --file=<filename>  use specified file'' @ [CHR 0x0A] \<noteq>
     format_width ''-f, --file=<filename>'' 32 @ ''  '' @ ''use specified file'' @ [CHR 0x0A]"
    by (simp add: format_width_def)
  show ?thesis
    using a b c by (simp only: file_option_padding) simp
qed

section \<open>Failure of the tokenizer\<close>

text \<open>
  Claim C4. For every option table and argument vector, when the tokenizer fails, the
  constructor returns normally (no exception leaves it), the failure is stored in
  \<open>error\<close>, and no flag matching takes place: \<open>flags\<close> is still the plain dictionary
  that the loop over the table built before the tokenizer was called.
\<close>

theorem tokenizer_failure_is_stored:
  assumes "usage_loop (padding_loop (OrderedDict (optionList cls)) 0) (OrderedDict (optionList cls))
             ([], [], [], Map.empty) = (longopts, shortopts, opthelp, fl)"
    and "tok argv shortopts longopts = Inl err"
  shows "\<exists>c. CommandBase_init tok cls argv = Inr c \<and> error c = Some err \<and> flags c = dict fl"
proof -
  from assms(1) have "shortopts = shortopts_of (OrderedDict (optionList cls))"
    and "longopts = longopts_of (OrderedDict (optionList cls))"
    and "fl = unset_flags (OrderedDict (optionList cls))"
    by (simp_all add: usage_loop_init)
  with assms(2) show ?thesis
    by (simp add: CommandBase_init_eq Let_def)
qed

theorem tokenizer_failure_is_stored_witness:
  "getopt [''--bogus''] ''hnf:'' [''help'', ''dry-run'', ''file='', ''debug''] =
     Inl (GetoptError ''option --bogus not recognized'' ''bogus'') \<and>
   (\<exists>c. CommandBase_init getopt example_class [''--bogus''] = Inr c \<and>
        error c = Some (GetoptError ''option --bogus not recognized'' ''bogus'') \<and>
        flags c = dict (unset_flags example_options))"
proof -
  have h: "getopt [''--bogus''] (shortopts_of (OrderedDict (optionList example_class)))
             (longopts_of (OrderedDict (optionList example_class))) =
           Inl (GetoptError ''option --bogus not recognized'' ''bogus'')"
    by (simp only: example_items example_shortopts example_longopts example_bogus)
  show ?thesis
    using tokenizer_failure_is_stored [where cls = example_class and tok = getopt and argv = "[''--bogus'']", OF usage_loop_init h] example_bogus
    by (simp only: example_items)
qed

section \<open>Boolean options\<close>

text \<open>
  Claim C5, as amended. For every declared boolean option (its argument entry is false)
  whose short letter is not a dash, after a successful parse the value in the flag map is
  \<open>PyBool True\<close> if the option is among the options that the tokenizer recognised on the
  command line, in its long or in its short spelling, and \<open>PyNone\<close> otherwise; it is
  never \<open>PyBool False\<close>.
\<close>

theorem boolean_flag_true_or_unset:
  assumes "usage_loop (padding_loop (OrderedDict (optionList cls)) 0) (OrderedDict (optionList cls))
             ([], [], [], Map.empty) = (longopts, shortopts, opthelp, fl)"
    and "getopt argv shortopts longopts = Inr (opts, rest)"
    and "(flag, short, arg, desc) \<in> set (OrderedDict (optionList cls))"
    and "\<not> truthy arg"
    and "take 1 short \<noteq> ''-''"
  shows "\<exists>c. CommandBase_init getopt cls argv = Inr c \<and> error c = None \<and>
             entries (flags c) flag = Some (if appears opts flag short then PyBool True else PyNone) \<and>
             entries (flags c) flag \<noteq> Some (PyBool False)"
proof -
  let ?items = "OrderedDict (optionList cls)"
  from assms(1) have so: "shortopts = shortopts_of ?items" and lo: "longopts = longopts_of ?items"
    by (simp_all add: usage_loop_init)
  have g: "getopt argv (shortopts_of ?items) (longopts_of ?items) = Inr (opts, rest)"
    using assms(2) so lo by simp
  have wf: "\<forall>t \<in> set opts. wf_token (fst t)"
    using getopt_tokens [OF g] .
  then have "\<forall>t \<in> set opts. 2 \<le> length (fst t)"
    by (simp add: wf_token_def)
  then obtain fl' where m: "match_options ?items opts (unset_flags ?items) = Inr fl'"
    using match_options_ok by blast
  from init_success [where tok = getopt and argv = argv, OF g m]
  obtain c where c: "CommandBase_init getopt cls argv = Inr c" "error c = None"
    "flags c = dictobject fl'"
    by blast
  have mo: "map_of ?items flag = Some (short, arg, desc)"
    using assms(3) OrderedDict_distinct by (rule_tac map_of_is_SomeI) auto
  have fv: "flag_value (short, arg, desc) opt = PyBool True" for opt
    using assms(4) by (simp add: flag_value_def)
  have "fl' flag = Some (if appears opts flag short then PyBool True else PyNone)"
    using final_flags [OF m OrderedDict_distinct, of flag] mo
      appears_iff_hits [OF wf assms(5), of flag arg desc]
    by (simp add: fv split: list.splits)
  then show ?thesis
    using c by auto
qed


theorem boolean_flag_true_or_unset_witness:
  "getopt [''-h'', ''--dry'', ''x''] ''hnf:'' [''help'', ''dry-run'', ''file='', ''debug''] =
     Inr ([(''-h'', []), (''--dry-run'', [])], [''x'']) \<and>
   (''help'', ''h'', None, ''show this help information'') \<in> set example_options \<and>
   (''debug'', [], None, ''show debug information'') \<in> set example_options \<and>
   (\<exists>c. CommandBase_init getopt example_class [''-h'', ''--dry'', ''x''] = Inr c \<and> error c = None \<and>
        entries (flags c) ''help'' = Some (PyBool True) \<and>
        entries (flags c) ''debug'' = Some PyNone)"
proof -
  let ?argv = "[''-h'', ''--dry'', ''x'']"
  let ?opts = "[(''-h'', []), (''--dry-run'', [])]"
  have g: "getopt ?argv (shortopts_of (OrderedDict (optionList example_class)))
             (longopts_of (OrderedDict (optionList example_class))) = Inr (?opts, [''x''])"
    by (simp only: example_items example_shortopts example_longopts example_getopt_h_dry)
  have m1: "(''help'', ''h'', None, ''show this help information'')
              \<in> set (OrderedDict (optionList example_class))"
    and m2: "(''debug'', [], None, ''show debug information'')
              \<in> set (OrderedDict (optionList example_class))"
    by (simp_all add: example_items example_options_def)
  have t: "\<not> truthy None" and s1: "take 1 ''h'' \<noteq> ''-''" and s2: "take 1 [] \<noteq> ''-''"
    by simp_all
  have a1: "appears ?opts ''help'' ''h''" and a2: "\<not> appears ?opts ''debug'' []"
    by (simp_all add: appears_def)
  from boolean_flag_true_or_unset
         [where cls = example_class and argv = ?argv, OF usage_loop_init g m1 t s1] a1
  obtain c where c: "CommandBase_init getopt example_class ?argv = Inr c" "error c = None"
    "entries (flags c) ''help'' = Some (PyBool True)"
    by auto
  from boolean_flag_true_or_unset
         [where cls = example_class and argv = ?argv, OF usage_loop_init g m2 t s2] a2 c(1)
  have "entries (flags c) ''debug'' = Some PyNone"
    by auto
  with c m1 m2 example_getopt_h_dry show ?thesis
    by (simp only: example_items) blast
qed

text \<open>
  The claim as stated, for every declared boolean option, fails for the short letter
  \<^verbatim>\<open>-\<close>: the tokenizer reports that short option as \<^verbatim>\<open>--\<close>, and the constructor takes
  a name whose second character is a dash for a long one. With the arguments \<^verbatim>\<open>-a-\<close>
  the option \<open>stdin\<close> of \<open>dash_class\<close> is given in its short spelling and stays unset.
\<close>

theorem boolean_flag_dash_counterexample:
  "getopt [''-a-''] (shortopts_of (OrderedDict (optionList dash_class)))
     (longopts_of (OrderedDict (optionList dash_class))) = Inr ([(''-a'', []), (''--'', [])], []) \<and>
   (''stdin'', ''-'', None, ''read standard input'') \<in> set (OrderedDict (optionList dash_class)) \<and>
   \<not> truthy None \<and>
   appears [(''-a'', []), (''--'', [])] ''stdin'' ''-'' \<and>
   map_sum id (\<lambda>c. (error c, entries (flags c) ''stdin''))
     (CommandBase_init getopt dash_class [''-a-'']) = Inr (None, Some PyNone)"
proof -
  obtain c where c: "CommandBase_init getopt dash_class [''-a-''] = Inr c" "error c = None"
    "flags c = dictobject ((unset_flags dash_options)(''all'' \<mapsto> PyBool True))"
    using dash_init by blast
  have "entries (flags c) ''stdin'' = Some PyNone"
    by (simp add: c(3) unset_flags_def dash_options_def)
  then have "map_sum id (\<lambda>c. (error c, entries (flags c) ''stdin''))
     (CommandBase_init getopt dash_class [''-a-'']) = Inr (None, Some PyNone)"
    by (simp add: c)
  moreover have "appears [(''-a'', []), (''--'', [])] ''stdin'' ''-''"
    by (simp add: appears_def)
  moreover have "(''stdin'', ''-'', None, ''read standard input'') \<in> set (OrderedDict (optionList dash_class))"
    by (simp add: dash_items dash_options_def)
  ultimately show ?thesis
    by (simp add: dash_items dash_shortopts dash_longopts dash_getopt)
qed


section \<open>Argument vectors without options\<close>

text \<open>
  Claim C6, as amended. The tokenizer reads options only at the front of the argument
  vector and stops at the first positional argument, so an argument vector holds no
  option for it when it is empty or when its first argument does not begin with a dash
  or is the single dash; what follows the first positional argument is positional
  whatever it looks like. For every option table and every such argument vector (it
  begins with neither an option nor the end-of-options marker \<^verbatim>\<open>--\<close>), parsing succeeds:
  no error is stored, the positional arguments are the argument vector itself and every
  declared flag is mapped to the unset value \<open>PyNone\<close>.
\<close>

theorem no_options_all_positional:
  assumes "argv \<noteq> [] \<longrightarrow> \<not> (take 1 (hd argv) = ''-'' \<and> hd argv \<noteq> ''-'')"
  shows "\<exists>c. CommandBase_init getopt cls argv = Inr c \<and> error c = None \<and> args c = argv \<and>
             (\<forall>name \<in> fst ` set (optionList cls). entries (flags c) name = Some PyNone)"
proof -
  have g: "getopt argv (shortopts_of (OrderedDict (optionList cls)))
             (longopts_of (OrderedDict (optionList cls))) = Inr ([], argv)"
    using getopt_first_positional [OF assms] .
  have m: "match_options (OrderedDict (optionList cls)) []
             (unset_flags (OrderedDict (optionList cls))) =
           Inr (unset_flags (OrderedDict (optionList cls)))"
    by simp
  from init_success [where tok = getopt and argv = argv, OF g m]
  obtain c where c: "CommandBase_init getopt cls argv = Inr c" "error c = None" "args c = argv"
    "flags c = dictobject (unset_flags (OrderedDict (optionList cls)))"
    by blast
  have "\<forall>name \<in> fst ` set (optionList cls). entries (flags c) name = Some PyNone"
    by (simp add: c(4) unset_flags_def OrderedDict_keys)
  with c show ?thesis
    by blast
qed

theorem no_options_all_positional_witness:
  "\<not> (take 1 ''build'' = ''-'' \<and> ''build'' \<noteq> ''-'') \<and>
   (\<exists>c. CommandBase_init getopt example_class [''build'', ''-'', ''x=1'', ''-h'', ''--''] = Inr c \<and>
        error c = None \<and> args c = [''build'', ''-'', ''x=1'', ''-h'', ''--''] \<and>
        entries (flags c) ''help'' = Some PyNone \<and> entries (flags c) ''dry-run'' = Some PyNone \<and>
        entries (flags c) ''file'' = Some PyNone \<and> entries (flags c) ''debug'' = Some PyNone)"
proof -
  let ?argv = "[''build'', ''-'', ''x=1'', ''-h'', ''--'']"
  have h: "?argv \<noteq> [] \<longrightarrow> \<not> (take 1 (hd ?argv) = ''-'' \<and> hd ?argv \<noteq> ''-'')"
    by simp
  obtain c where c: "CommandBase_init getopt example_class ?argv = Inr c"
    "error c = None" "args c = ?argv"
    and fl: "\<forall>name \<in> fst ` set (optionList example_class). entries (flags c) name = Some PyNone"
    using no_options_all_positional [OF h, of example_class] by blast
  have "entries (flags c) ''help'' = Some PyNone" "entries (flags c) ''dry-run'' = Some PyNone"
    "entries (flags c) ''file'' = Some PyNone" "entries (flags c) ''debug'' = Some PyNone"
    using fl by (simp_all add: example_class_def example_options_def)
  with c show ?thesis
    by simp
qed

text \<open>
  The claim as stated, for every argument vector without option tokens, fails at the
  end-of-options marker: in \<^verbatim>\<open>['--', 'x']\<close> the tokenizer finds no option, parsing
  succeeds and every flag is unset, but the marker is consumed and the positional
  arguments are \<^verbatim>\<open>['x']\<close>, not the argument vector.
\<close>

theorem end_of_options_marker_counterexample:
  "getopt [''--'', ''x''] (shortopts_of (OrderedDict (optionList example_class)))
     (longopts_of (OrderedDict (optionList example_class))) = Inr ([], [''x'']) \<and>
   map_sum id (\<lambda>c. (error c, args c, entries (flags c) ''help'', entries (flags c) ''dry-run'',
                     entries (flags c) ''file'', entries (flags c) ''debug''))
     (CommandBase_init getopt example_class [''--'', ''x'']) =
     Inr (None, [''x''], Some PyNone, Some PyNone, Some PyNone, Some PyNone) \<and>
   [''x''] \<noteq> [''--'', ''x'']"
proof -
  obtain c where c: "CommandBase_init getopt example_class [''--'', ''x''] = Inr c"
    "error c = None" "args c = [''x'']" "flags c = dictobject (unset_flags example_options)"
    using example_init_double_dash by blast
  have "entries (flags c) ''help'' = Some PyNone" "entries (flags c) ''dry-run'' = Some PyNone"
    "entries (flags c) ''file'' = Some PyNone" "entries (flags c) ''debug'' = Some PyNone"
    by (simp_all add: c(4) unset_flags_def example_options_def)
  then have "map_sum id (\<lambda>c. (error c, args c, entries (flags c) ''help'',
                               entries (flags c) ''dry-run'', entries (flags c) ''file'',
                               entries (flags c) ''debug''))
     (CommandBase_init getopt example_class [''--'', ''x'']) =
     Inr (None, [''x''], Some PyNone, Some PyNone, Some PyNone, Some PyNone)"
    by (simp add: c(1-3))
  then show ?thesis
    by (simp add: example_items example_shortopts example_longopts example_getopt_double_dash)
qed
section \<open>Attribute access on the flag map\<close>

text \<open>
  Claim C7, as amended. For every option table, after a successful parse, and for every
  name that is not an attribute which the flag map inherits from \<^verbatim>\<open>dict\<close>: if the name
  is not a declared flag, the access \<^verbatim>\<open>flags.name\<close> raises \<open>OptionError\<close> with the
  message that the option is not defined; if it is a declared flag, the access returns
  the value stored for it.
\<close>

theorem getattr_on_flags:
  assumes "CommandBase_init tok cls argv = Inr c" "error c = None" "\<not> inherited name"
  shows "(name \<notin> fst ` set (optionList cls) \<longrightarrow>
            getattr inherited (flags c) name =
              Inl (OptionError (''Option '' @ [CHR 0x27] @ name @ [CHR 0x27] @ '' is not defined''))) \<and>
         (name \<in> fst ` set (optionList cls) \<longrightarrow>
            (\<exists>v. entries (flags c) name = Some v \<and>
                 getattr inherited (flags c) name = Inr (Stored v)))"
proof -
  let ?items = "OrderedDict (optionList cls)"
  from init_Inr_cases [OF assms(1)] assms(2)
  obtain opts fl' where m: "match_options ?items opts (unset_flags ?items) = Inr fl'"
    and f: "flags c = dictobject fl'"
    by auto
  have d: "dom fl' = fst ` set (optionList cls)"
    using final_flags_dom [OF m OrderedDict_distinct] by (simp add: OrderedDict_keys)
  show ?thesis
  proof (intro conjI impI)
    assume "name \<notin> fst ` set (optionList cls)"
    then have "name \<notin> dom fl'"
      using d by simp
    then show "getattr inherited (flags c) name =
        Inl (OptionError (''Option '' @ [CHR 0x27] @ name @ [CHR 0x27] @ '' is not defined''))"
      using assms(3) by (simp add: getattr_def f dictobject_getattr_def)
  next
    assume "name \<in> fst ` set (optionList cls)"
    then have in_dom: "name \<in> dom fl'"
      using d by simp
    then obtain v where v: "fl' name = Some v"
      by auto
    have "getattr inherited (flags c) name = Inr (Stored v)"
      using assms(3) in_dom v by (simp add: getattr_def f dictobject_getattr_def)
    then show "\<exists>v. entries (flags c) name = Some v \<and>
                 getattr inherited (flags c) name = Inr (Stored v)"
      using v f by simp
  qed
qed

theorem getattr_on_flags_witness:
  "\<not> is_dict_method ''file'' \<and> \<not> is_dict_method ''color'' \<and>
   ''file'' \<in> fst ` set (optionList example_class) \<and>
   ''color'' \<notin> fst ` set (optionList example_class) \<and>
   (\<exists>c. CommandBase_init getopt example_class [''-f'', ''out.txt'', ''extra''] = Inr c \<and>
        error c = None \<and>
        getattr is_dict_method (flags c) ''file'' = Inr (Stored (PyStr ''out.txt'')) \<and>
        getattr is_dict_method (flags c) ''color'' =
          Inl (OptionError (''Option '' @ [CHR 0x27] @ ''color'' @ [CHR 0x27] @ '' is not defined'')))"
proof -
  obtain c where c: "CommandBase_init getopt example_class [''-f'', ''out.txt'', ''extra''] = Inr c"
    "error c = None"
    "flags c = dictobject ((unset_flags example_options)(''file'' \<mapsto> PyStr ''out.txt''))"
    using example_init_f by blast
  have n1: "\<not> is_dict_method ''file''" and n2: "\<not> is_dict_method ''color''"
    by (simp_all add: is_dict_method_def dict_methods_def)
  have k1: "''file'' \<in> fst ` set (optionList example_class)"
    and k2: "''color'' \<notin> fst ` set (optionList example_class)"
    by (simp_all add: example_class_def example_options_def)
  have e: "entries (flags c) ''file'' = Some (PyStr ''out.txt'')"
    by (simp add: c(3))
  from getattr_on_flags [where inherited = is_dict_method and name = "''file''" and tok = getopt,
         OF c(1) c(2) n1] k1 e
  have a: "getattr is_dict_method (flags c) ''file'' = Inr (Stored (PyStr ''out.txt''))"
    by auto
  from getattr_on_flags [where inherited = is_dict_method and name = "''color''" and tok = getopt,
         OF c(1) c(2) n2] k2
  have b: "getattr is_dict_method (flags c) ''color'' =
          Inl (OptionError (''Option '' @ [CHR 0x27] @ ''color'' @ [CHR 0x27] @ '' is not defined''))"
    by blast
  from c a b n1 n2 k1 k2 show ?thesis
    by blast
qed

text \<open>
  The claim as stated, for every name that is not a declared flag, fails for the names
  of the methods of \<^verbatim>\<open>dict\<close>: \<^verbatim>\<open>flags.keys\<close> is the inherited method and nothing is
  raised, since \<^verbatim>\<open>__getattr__\<close> is only asked for names that the normal lookup does not
  find.
\<close>

theorem getattr_inherited_counterexample:
  "is_dict_method ''keys'' \<and> ''keys'' \<notin> fst ` set (optionList example_class) \<and>
   map_sum id (\<lambda>c. (error c, getattr is_dict_method (flags c) ''keys''))
     (CommandBase_init getopt example_class []) = Inr (None, Inr (Inherited ''keys''))"
proof -
  obtain c where c: "CommandBase_init getopt example_class [] = Inr c" "error c = None"
    using example_init_empty by blast
  have k: "is_dict_method ''keys''"
    by (simp add: is_dict_method_def dict_methods_def)
  then have "getattr is_dict_method (flags c) ''keys'' = Inr (Inherited ''keys'')"
    by (simp add: getattr_def)
  then have "map_sum id (\<lambda>c. (error c, getattr is_dict_method (flags c) ''keys''))
     (CommandBase_init getopt example_class []) = Inr (None, Inr (Inherited ''keys''))"
    by (simp add: c)
  moreover have "''keys'' \<notin> fst ` set (optionList example_class)"
    by (simp add: example_class_def example_options_def)
  ultimately show ?thesis
    using k by blast
qed


section \<open>The entry point run_and_exit\<close>

text \<open>
  Claim C8, as amended. \<open>run_and_exit\<close> constructs the command from the process
  arguments without the program name. If the constructor stored a parse error, it prints
  \<^verbatim>\<open>error: \<close> and the message and ends the process through \<^verbatim>\<open>sys.exit(1)\<close>, status 1.
  Otherwise it calls \<^verbatim>\<open>run()\<close> and ends the process through \<^verbatim>\<open>sys.exit\<close> with the value
  that \<^verbatim>\<open>run()\<close> returned. The status of the process is then 0 when that value is
  \<^verbatim>\<open>None\<close>, the value itself when it is an integer from 0 to 255, \<open>n mod 256\<close> for any
  integer \<open>n\<close> in the range of a C \<^verbatim>\<open>long\<close>, and 1 when it is another object.
  (An exception raised by \<^verbatim>\<open>run()\<close> is not a returned value; \<open>run_and_exit_uncaught\<close>
  says what happens to it.)
\<close>

theorem run_and_exit_outcomes:
  "(\<forall>cmd err. CommandBase_init tok cls (drop 1 sys_argv) = Inr cmd \<and> error cmd = Some err \<longrightarrow>
      run_and_exit tok run_method cls sys_argv =
        (print (''error: '' @ msg err), SystemExit (ObjInt 1)) \<and>
      exit_status (snd (run_and_exit tok run_method cls sys_argv)) = 1) \<and>
   (\<forall>cmd out v. CommandBase_init tok cls (drop 1 sys_argv) = Inr cmd \<and> error cmd = None \<and>
        run_method cmd = (out, Inr v) \<longrightarrow>
      run_and_exit tok run_method cls sys_argv = (out, SystemExit v) \<and>
      (v = ObjNone \<longrightarrow> exit_status (snd (run_and_exit tok run_method cls sys_argv)) = 0) \<and>
      (\<forall>n. v = ObjInt n \<and> 0 \<le> n \<and> n \<le> 255 \<longrightarrow>
         exit_status (snd (run_and_exit tok run_method cls sys_argv)) = n) \<and>
      (\<forall>n. v = ObjInt n \<and> - (2 ^ 63) \<le> n \<and> n < 2 ^ 63 \<longrightarrow>
         exit_status (snd (run_and_exit tok run_method cls sys_argv)) = n mod 256) \<and>
      (\<forall>x. v = Obj x \<longrightarrow> exit_status (snd (run_and_exit tok run_method cls sys_argv)) = 1))"
  by (auto simp: run_and_exit_def)

theorem run_and_exit_outcomes_witness:
  "run_and_exit getopt hello_run example_class [''prog'', ''--bogus''] =
     (''error: option --bogus not recognized'' @ [CHR 0x0A], SystemExit (ObjInt 1)) \<and>
   exit_status (snd (run_and_exit getopt hello_run example_class [''prog'', ''--bogus''])) = 1 \<and>
   run_and_exit getopt hello_run example_class [''prog''] =
     (''hello'' @ [CHR 0x0A], SystemExit ObjNone) \<and>
   exit_status (snd (run_and_exit getopt hello_run example_class [''prog''])) = 0 \<and>
   run_and_exit getopt (status_run 3) example_class [''prog''] = ([], SystemExit (ObjInt 3)) \<and>
   exit_status (snd (run_and_exit getopt (status_run 3) example_class [''prog''])) = 3 \<and>
   run_and_exit getopt (status_run (- 1)) example_class [''prog''] =
     ([], SystemExit (ObjInt (- 1))) \<and>
   exit_status (snd (run_and_exit getopt (status_run (- 1)) example_class [''prog''])) = 255"
proof -
  obtain c1 where c1: "CommandBase_init getopt example_class (drop 1 [''prog'', ''--bogus'']) = Inr c1"
    "error c1 = Some (GetoptError ''option --bogus not recognized'' ''bogus'')"
    using example_init_bogus by auto
  obtain c2 where c2: "CommandBase_init getopt example_class (drop 1 [''prog'']) = Inr c2"
    "error c2 = None"
    using example_init_empty by auto
  have r: "hello_run c2 = (print ''hello'', Inr ObjNone)"
    by (simp add: hello_run_def)
  have r3: "status_run 3 c2 = ([], Inr (ObjInt 3))"
    and r1: "status_run (- 1) c2 = ([], Inr (ObjInt (- 1)))"
    by (simp_all add: status_run_def)
  note t1 = run_and_exit_outcomes
    [where tok = getopt and cls = example_class and sys_argv = "[''prog'', ''--bogus'']"
       and run_method = hello_run]
  note t2 = run_and_exit_outcomes
    [where tok = getopt and cls = example_class and sys_argv = "[''prog'']"
       and run_method = hello_run]
  note t3 = run_and_exit_outcomes
    [where tok = getopt and cls = example_class and sys_argv = "[''prog'']"
       and run_method = "status_run 3"]
  note t4 = run_and_exit_outcomes
    [where tok = getopt and cls = example_class and sys_argv = "[''prog'']"
       and run_method = "status_run (- 1)"]
  from t1 c1 have a: "run_and_exit getopt hello_run example_class [''prog'', ''--bogus''] =
        (print (''error: '' @ msg (GetoptError ''option --bogus not recognized'' ''bogus'')),
         SystemExit (ObjInt 1))"
    and a': "exit_status (snd (run_and_exit getopt hello_run example_class [''prog'', ''--bogus''])) = 1"
    by blast+
  from t2 c2 r have b: "run_and_exit getopt hello_run example_class [''prog''] =
        (print ''hello'', SystemExit ObjNone)"
    and b': "exit_status (snd (run_and_exit getopt hello_run example_class [''prog''])) = 0"
    by blast+
  from t3 c2 r3 have d: "run_and_exit getopt (status_run 3) example_class [''prog''] =
        ([], SystemExit (ObjInt 3))"
    and d0: "\<forall>n. ObjInt 3 = (ObjInt n :: unit pyobject) \<and> 0 \<le> n \<and> n \<le> 255 \<longrightarrow>
         exit_status (snd (run_and_exit getopt (status_run 3) example_class [''prog''])) = n"
    by blast+
  from d0 have d': "exit_status (snd (run_and_exit getopt (status_run 3) example_class [''prog''])) = 3"
    by simp
  from t4 c2 r1 have e: "run_and_exit getopt (status_run (- 1)) example_class [''prog''] =
        ([], SystemExit (ObjInt (- 1)))"
    and e0: "\<forall>n. ObjInt (- 1) = (ObjInt n :: unit pyobject) \<and> - (2 ^ 63) \<le> n \<and> n < 2 ^ 63 \<longrightarrow>
         exit_status (snd (run_and_exit getopt (status_run (- 1)) example_class [''prog''])) =
           n mod 256"
    by blast+
  from e0 have e': "exit_status (snd (run_and_exit getopt (status_run (- 1)) example_class [''prog''])) = 255"
    by simp
  show ?thesis
    using a a' b b' d d' e e' by (simp add: print_def)
qed

text \<open>
  The claim as stated, that the process terminates with the value \<^verbatim>\<open>run()\<close> produced,
  fails when that value is not a status: a \<^verbatim>\<open>run()\<close> that returns 256 ends the process
  through \<^verbatim>\<open>sys.exit(256)\<close>, and the status of the process is 0.
\<close>

theorem run_and_exit_status_counterexample:
  "run_and_exit getopt (status_run 256) example_class [''prog''] =
     ([], SystemExit (ObjInt 256)) \<and>
   exit_status (snd (run_and_exit getopt (status_run 256) example_class [''prog''])) = 0 \<and>
   (0 :: int) \<noteq> 256"
proof -
  obtain c where c: "CommandBase_init getopt example_class (drop 1 [''prog'']) = Inr c"
    "error c = None"
    using example_init_empty by auto
  have "run_and_exit getopt (status_run 256) example_class [''prog''] =
     ([], SystemExit (ObjInt 256))"
    using c by (simp add: run_and_exit_def status_run_def)
  then show ?thesis
    by simp
qed
section \<open>The flag map after a failed parse\<close>

text \<open>
  Claim C9. For every option table and argument vector, if the tokenizer fails, the
  constructor returns an object in which the failure is recorded as the parse error,
  every declared flag name is a key of the flag map with the value \<open>PyNone\<close>, no other
  name is a key, and the positional arguments are the empty list.
\<close>

theorem failed_parse_leaves_flags_unset:
  assumes "usage_loop (padding_loop (OrderedDict (optionList cls)) 0) (OrderedDict (optionList cls))
             ([], [], [], Map.empty) = (longopts, shortopts, opthelp, fl)"
    and "tok argv shortopts longopts = Inl err"
  shows "\<exists>c. CommandBase_init tok cls argv = Inr c \<and> error c = Some err \<and> args c = [] \<and>
             (\<forall>name. entries (flags c) name =
                       (if name \<in> fst ` set (optionList cls) then Some PyNone else None))"
proof -
  from assms(1) have "shortopts = shortopts_of (OrderedDict (optionList cls))"
    and "longopts = longopts_of (OrderedDict (optionList cls))"
    by (simp_all add: usage_loop_init)
  with assms(2) show ?thesis
    by (simp add: CommandBase_init_eq Let_def unset_flags_def OrderedDict_keys)
qed

theorem failed_parse_leaves_flags_unset_witness:
  "getopt [''-f''] ''hnf:'' [''help'', ''dry-run'', ''file='', ''debug''] =
     Inl (GetoptError ''option -f requires argument'' ''f'') \<and>
   (\<exists>c. CommandBase_init getopt example_class [''-f''] = Inr c \<and>
        error c = Some (GetoptError ''option -f requires argument'' ''f'') \<and> args c = [] \<and>
        entries (flags c) ''help'' = Some PyNone \<and> entries (flags c) ''dry-run'' = Some PyNone \<and>
        entries (flags c) ''file'' = Some PyNone \<and> entries (flags c) ''debug'' = Some PyNone \<and>
        entries (flags c) ''keys'' = None)"
proof -
  have g: "getopt [''-f''] ''hnf:'' [''help'', ''dry-run'', ''file='', ''debug''] =
     Inl (GetoptError ''option -f requires argument'' ''f'')"
    by (simp add: getopt_def)
  have h: "getopt [''-f''] (shortopts_of (OrderedDict (optionList example_class)))
             (longopts_of (OrderedDict (optionList example_class))) =
           Inl (GetoptError ''option -f requires argument'' ''f'')"
    by (simp only: example_items example_shortopts example_longopts g)
  obtain c where c: "CommandBase_init getopt example_class [''-f''] = Inr c"
    "error c = Some (GetoptError ''option -f requires argument'' ''f'')" "args c = []"
    and fl: "\<forall>name. entries (flags c) name =
                (if name \<in> fst ` set (optionList example_class) then Some PyNone else None)"
    using failed_parse_leaves_flags_unset
      [where cls = example_class and tok = getopt and argv = "[''-f'']", OF usage_loop_init h]
    by blast
  have "entries (flags c) ''help'' = Some PyNone" "entries (flags c) ''dry-run'' = Some PyNone"
    "entries (flags c) ''file'' = Some PyNone" "entries (flags c) ''debug'' = Some PyNone"
    "entries (flags c) ''keys'' = None"
    by (simp_all add: fl example_class_def example_options_def)
  with c g show ?thesis
    by blast
qed

section \<open>Options that share a short letter\<close>

text \<open>
  Claim C10, as amended. Let declared options share a short letter other than the dash,
  and let the parse succeed: the tokenizer accepts the command line and the constructor
  returns. Then every occurrence of that short option among the options the tokenizer
  recognised sets the flag of every declared option with that letter, since the scan
  over the table does not stop at the first match: a boolean option gets \<open>PyBool True\<close>,
  an option with an argument gets a string, and when the occurrence is the only
  recognised option that string is its value.
\<close>

theorem shared_short_letter_sets_all:
  assumes "usage_loop (padding_loop (OrderedDict (optionList cls)) 0) (OrderedDict (optionList cls))
             ([], [], [], Map.empty) = (longopts, shortopts, opthelp, fl)"
    and "tok argv shortopts longopts = Inr (opts, rest)"
    and "CommandBase_init tok cls argv = Inr c"
    and "([CHR ''-'', x], v) \<in> set opts"
    and "x \<noteq> CHR ''-''"
  shows "\<forall>(flag, short, arg, desc) \<in> set (OrderedDict (optionList cls)).
           short = [x] \<longrightarrow>
             (if truthy arg then \<exists>w. entries (flags c) flag = Some (PyStr w)
              else entries (flags c) flag = Some (PyBool True)) \<and>
             (opts = [([CHR ''-'', x], v)] \<longrightarrow>
                entries (flags c) flag = Some (if truthy arg then PyStr v else PyBool True))"
proof -
  let ?items = "OrderedDict (optionList cls)"
  from assms(1) have so: "shortopts = shortopts_of ?items" and lo: "longopts = longopts_of ?items"
    by (simp_all add: usage_loop_init)
  have g: "tok argv (shortopts_of ?items) (longopts_of ?items) = Inr (opts, rest)"
    using assms(2) so lo by simp
  from init_Inr_cases [OF assms(3)] g
  obtain fl' where m: "match_options ?items opts (unset_flags ?items) = Inr fl'"
    and f: "flags c = dictobject fl'"
    by auto
  have h: "hits ([CHR ''-'', x], v) flag ([x], arg, desc)" for flag arg desc
    using assms(5) by (simp add: hits_def)
  show ?thesis
  proof (intro ballI, clarify)
    fix flag arg desc
    assume mem: "(flag, [x], arg, desc) \<in> set ?items"
    have mo: "map_of ?items flag = Some ([x], arg, desc)"
      using mem OrderedDict_distinct by (rule_tac map_of_is_SomeI) auto
    let ?hs = "filter (\<lambda>opt. hits opt flag ([x], arg, desc)) opts"
    have "([CHR ''-'', x], v) \<in> set ?hs"
      using assms(4) h by simp
    then obtain h0 hs where hs: "?hs = h0 # hs"
      by (cases ?hs) auto
    have val: "fl' flag = Some (flag_value ([x], arg, desc) (last (h0 # hs)))"
      using final_flags [OF m OrderedDict_distinct, of flag] mo hs by simp
    have one: "opts = [([CHR ''-'', x], v)] \<Longrightarrow> last (h0 # hs) = ([CHR ''-'', x], v)"
      using hs h by (simp split: if_splits)
    show "(if truthy arg then \<exists>w. entries (flags c) flag = Some (PyStr w)
           else entries (flags c) flag = Some (PyBool True)) \<and>
          (opts = [([CHR ''-'', x], v)] \<longrightarrow>
             entries (flags c) flag = Some (if truthy arg then PyStr v else PyBool True))"
      using val one by (auto simp: f flag_value_def)
  qed
qed


theorem shared_short_letter_sets_all_witness:
  "getopt [''-v''] ''vv:'' [''verbose'', ''version=''] = Inr ([([CHR ''-'', CHR ''v''], [])], []) \<and>
   CHR ''v'' \<noteq> CHR ''-'' \<and>
   (\<exists>c. CommandBase_init getopt shared_class [''-v''] = Inr c \<and>
        entries (flags c) ''verbose'' = Some (PyBool True) \<and>
        entries (flags c) ''version'' = Some (PyStr []))"
proof -
  have g: "getopt [''-v''] (shortopts_of (OrderedDict (optionList shared_class)))
             (longopts_of (OrderedDict (optionList shared_class))) =
           Inr ([([CHR ''-'', CHR ''v''], [])], [])"
    by (simp only: shared_items shared_shortopts shared_longopts shared_getopt)
  obtain c where c: "CommandBase_init getopt shared_class [''-v''] = Inr c"
    using init_getopt_total by blast
  have mem: "([CHR ''-'', CHR ''v''], []) \<in> set [([CHR ''-'', CHR ''v''], [])]"
    and x: "CHR ''v'' \<noteq> CHR ''-''"
    by simp_all
  note all = shared_short_letter_sets_all
    [where cls = shared_class and tok = getopt and argv = "[''-v'']",
     OF usage_loop_init g c mem x]
  have m1: "(''verbose'', ''v'', None, ''print more'') \<in> set (OrderedDict (optionList shared_class))"
    and m2: "(''version'', ''v'', Some ''<n>'', ''select a version'')
              \<in> set (OrderedDict (optionList shared_class))"
    by (simp_all add: shared_items shared_options_def)
  from bspec [OF all m1] have "entries (flags c) ''verbose'' = Some (PyBool True)"
    by simp
  moreover from bspec [OF all m2] have "entries (flags c) ''version'' = Some (PyStr [])"
    by simp
  ultimately show ?thesis
    using c x shared_getopt by blast
qed

text \<open>
  The claim as stated, for any shared letter, fails for the dash: with the arguments
  \<^verbatim>\<open>-a-\<close> the tokenizer reports one occurrence of the short option \<^verbatim>\<open>-\<close> as \<^verbatim>\<open>--\<close>,
  and neither \<open>stdin\<close> nor \<open>stdout\<close>, which both have that letter, is set.
\<close>

theorem shared_dash_letter_counterexample:
  "getopt [''-a-''] (shortopts_of (OrderedDict (optionList dash_class)))
     (longopts_of (OrderedDict (optionList dash_class))) =
     Inr ([(''-a'', []), ([CHR ''-'', CHR ''-''], [])], []) \<and>
   (''stdin'', [CHR ''-''], None, ''read standard input'') \<in> set (OrderedDict (optionList dash_class)) \<and>
   (''stdout'', [CHR ''-''], None, ''write standard output'') \<in> set (OrderedDict (optionList dash_class)) \<and>
   map_sum id (\<lambda>c. (entries (flags c) ''stdin'', entries (flags c) ''stdout''))
     (CommandBase_init getopt dash_class [''-a-'']) = Inr (Some PyNone, Some PyNone)"
proof -
  obtain c where c: "CommandBase_init getopt dash_class [''-a-''] = Inr c"
    "flags c = dictobject ((unset_flags dash_options)(''all'' \<mapsto> PyBool True))"
    using dash_init by blast
  have "entries (flags c) ''stdin'' = Some PyNone" "entries (flags c) ''stdout'' = Some PyNone"
    by (simp_all add: c(2) unset_flags_def dash_options_def)
  then have "map_sum id (\<lambda>c. (entries (flags c) ''stdin'', entries (flags c) ''stdout''))
     (CommandBase_init getopt dash_class [''-a-'']) = Inr (Some PyNone, Some PyNone)"
    by (simp add: c(1))
  moreover have "(''stdin'', [CHR ''-''], None, ''read standard input'')
                   \<in> set (OrderedDict (optionList dash_class))"
    "(''stdout'', [CHR ''-''], None, ''write standard output'')
                   \<in> set (OrderedDict (optionList dash_class))"
    by (simp_all add: dash_items dash_options_def)
  ultimately show ?thesis
    by (simp add: dash_items dash_shortopts dash_longopts dash_getopt)
qed

text \<open>
  Without a successful parse nothing is set either: when the tokenizer rejects a later
  argument, the occurrence of the shared letter before it sets no flag.
\<close>

lemma shared_letter_failed_parse:
  "\<exists>c. CommandBase_init getopt shared_class [''-v'', ''--bogus''] = Inr c \<and>
       error c = Some (GetoptError ''option --bogus not recognized'' ''bogus'') \<and>
       entries (flags c) ''verbose'' = Some PyNone \<and> entries (flags c) ''version'' = Some PyNone"
proof -
  have h: "getopt [''-v'', ''--bogus''] (shortopts_of (OrderedDict (optionList shared_class)))
             (longopts_of (OrderedDict (optionList shared_class))) =
           Inl (GetoptError ''option --bogus not recognized'' ''bogus'')"
    by (simp only: shared_items shared_shortopts shared_longopts shared_getopt_bogus)
  from init_failure [where tok = getopt and argv = "[''-v'', ''--bogus'']", OF h]
  obtain c where c: "CommandBase_init getopt shared_class [''-v'', ''--bogus''] = Inr c"
    "error c = Some (GetoptError ''option --bogus not recognized'' ''bogus'')"
    "flags c = dict (unset_flags (OrderedDict (optionList shared_class)))"
    by blast
  have "entries (flags c) ''verbose'' = Some PyNone" "entries (flags c) ''version'' = Some PyNone"
    by (simp_all add: c(3) shared_items unset_flags_def shared_options_def)
  with c show ?thesis
    by blast
qed
end
